theory Spec2Isabelle
  imports Complex_Main
begin

section \<open>Python and library primitives used by \<^verbatim>\<open>train.py\<close>\<close>

text \<open>
  Exceptions are values. \<open>ValueError\<close> is what \<^verbatim>\<open>range\<close> raises on a zero step, what
  \<^verbatim>\<open>np.vstack\<close> raises on an empty sequence and what \<^verbatim>\<open>pd.DataFrame\<close> raises on columns of
  different lengths; \<open>UnboundLocalError\<close> is Python's error for reading a local variable
  that was never assigned; the file errors belong to \<^verbatim>\<open>os.makedirs\<close> and to the writers.
  \<open>FrameworkError\<close> stands for anything a collaborator (model, optimizer, metric) raises.
\<close>

datatype error =
    ValueError
  | UnboundLocalError
  | FileNotFoundError
  | FileExistsError
  | IsADirectoryError
  | FrameworkError

text \<open>
  \<^verbatim>\<open>range(start, stop, step)\<close>, materialised: an ascending loop for a positive step, a
  descending one for a negative step, \<open>ValueError\<close> for a zero step.
\<close>

function range_up :: "int \<Rightarrow> int \<Rightarrow> int \<Rightarrow> int list" where
  "range_up i stop step = (if 0 < step \<and> i < stop then i # range_up (i + step) stop step else [])"
  by pat_completeness auto
termination
  by (relation "measure (\<lambda>(i, stop, step). nat (stop - i))") auto

function range_down :: "int \<Rightarrow> int \<Rightarrow> int \<Rightarrow> int list" where
  "range_down i stop step = (if step < 0 \<and> stop < i then i # range_down (i + step) stop step else [])"
  by pat_completeness auto
termination
  by (relation "measure (\<lambda>(i, stop, step). nat (i - stop))") auto

definition py_range :: "int \<Rightarrow> int \<Rightarrow> int \<Rightarrow> error + int list" where
  "py_range start stop step =
     (if step = 0 then Inl ValueError
      else if 0 < step then Inr (range_up start stop step)
      else Inr (range_down start stop step))"

text \<open>
  The slice \<^verbatim>\<open>xs[i:j]\<close> along the first axis: a negative bound counts from the end, and
  both bounds are clipped to the length, so a slice never raises.
\<close>

definition clip_index :: "int \<Rightarrow> int \<Rightarrow> int" where
  "clip_index n k = (if k < 0 then max 0 (n + k) else min n k)"

definition py_slice :: "'a list \<Rightarrow> int \<Rightarrow> int \<Rightarrow> 'a list" where
  "py_slice xs i j =
     (let n = int (length xs); a = clip_index n i; b = clip_index n j
      in take (nat (b - a)) (drop (nat a) xs))"

text \<open>
  \<^verbatim>\<open>np.vstack(preds)\<close> stacks the arrays along the first axis and raises \<open>ValueError\<close> when
  the sequence is empty. An array is the list of its rows; a row is a value of the output
  type, so all rows have the same width.
\<close>

definition np_vstack :: "'b list list \<Rightarrow> error + 'b list" where
  "np_vstack preds = (if preds = [] then Inl ValueError else Inr (concat preds))"

section \<open>The state the script acts on\<close>

text \<open>
  A workbook is the list of its sheets; a sheet has a name, a header row and data rows.
  A checkpoint holds the dictionary \<^verbatim>\<open>{'model_state_dict', 'mean', 'std'}\<close>.
\<close>

record sheet =
  sheet_name :: string
  header :: "string list"
  rows :: "real list list"

datatype 'p fs_file = Workbook "sheet list" | Checkpoint 'p real real

text \<open>
  One forward pass, as the framework sees it: the module's \<^verbatim>\<open>training\<close> flag, the global
  gradient mode and the number of images in the batch.
\<close>

record fwd_call =
  call_training :: bool
  call_grad :: bool
  call_size :: nat

datatype event = Trained int | Evaluated int

text \<open>
  The lines printed: the device line at the start, one line per evaluation (epoch, train
  RMSE, test RMSE, train R2, test R2; the values are kept exact, the two-decimal formatting
  is not modelled) and the line naming the checkpoint path.
\<close>

datatype output_line = DeviceLine | MetricsLine int real real real real | SavedLine string

text \<open>
  The world: the module (\<open>params\<close>, \<open>training\<close>), the optimizer's state, the global
  gradient mode of the framework (\<^verbatim>\<open>torch.is_grad_enabled()\<close>), the file system
  (directories, files) and the console. \<open>fwd_log\<close>, \<open>trace\<close> and \<open>written\<close> are
  history fields: they record the forward passes, the phases of the epochs and the paths
  written, in order, and nothing reads them.
\<close>

record ('p, 'o) world =
  params :: 'p
  opt_state :: 'o
  training :: bool
  grad_enabled :: bool
  fwd_log :: "fwd_call list"
  trace :: "event list"
  console :: "output_line list"
  dirs :: "string set"
  files :: "string \<rightharpoonup> 'p fs_file"
  written :: "string list"

section \<open>\<^verbatim>\<open>predict_in_batches\<close>\<close>

text \<open>
  The model is a parameter: \<open>fwd p t batch\<close> is \<^verbatim>\<open>model(batch)\<close> for parameters \<open>p\<close> and
  \<^verbatim>\<open>training\<close> flag \<open>t\<close>; it returns one array of rows or raises.

  The body of the \<^verbatim>\<open>for\<close> loop, over the indices that \<^verbatim>\<open>range\<close> yields:
  \<^verbatim>\<open>batch = images[i:i+batch_size]; pred = model(batch); preds.append(pred)\<close>.
\<close>

fun predict_loop ::
  "('p \<Rightarrow> bool \<Rightarrow> 'a list \<Rightarrow> error + 'b list) \<Rightarrow> 'a list \<Rightarrow> int \<Rightarrow> int list \<Rightarrow>
   ('p, 'o) world \<Rightarrow> 'b list list \<Rightarrow> ('p, 'o) world \<times> (error + 'b list list)" where
  "predict_loop fwd images batch_size [] w preds = (w, Inr preds)"
| "predict_loop fwd images batch_size (i # idx) w preds =
     (let batch = py_slice images i (i + batch_size);
          w' = w\<lparr>fwd_log := fwd_log w @
                 [\<lparr>call_training = training w, call_grad = grad_enabled w,
                   call_size = length batch\<rparr>]\<rparr>
      in case fwd (params w) (training w) batch of
           Inl e \<Rightarrow> (w', Inl e)
         | Inr pred \<Rightarrow> predict_loop fwd images batch_size idx w' (preds @ [pred]))"

text \<open>
  \<^verbatim>\<open>model.eval()\<close>, then the loop inside \<^verbatim>\<open>with torch.no_grad()\<close> (which restores the
  previous gradient mode when it is left, also by an exception), then \<^verbatim>\<open>np.vstack\<close>.
  The world is returned on an error as well: \<^verbatim>\<open>model.eval()\<close> has happened by then.
\<close>

definition predict_in_batches ::
  "('p \<Rightarrow> bool \<Rightarrow> 'a list \<Rightarrow> error + 'b list) \<Rightarrow> ('p, 'o) world \<Rightarrow> 'a list \<Rightarrow> int \<Rightarrow>
   ('p, 'o) world \<times> (error + 'b list)" where
  "predict_in_batches fwd w images batch_size =
     (let w1 = w\<lparr>training := False\<rparr>;
          prev = grad_enabled w1;
          w2 = w1\<lparr>grad_enabled := False\<rparr>
      in case py_range 0 (int (length images)) batch_size of
           Inl e \<Rightarrow> (w2\<lparr>grad_enabled := prev\<rparr>, Inl e)
         | Inr idx \<Rightarrow>
             (case predict_loop fwd images batch_size idx w2 [] of
                (w3, Inl e) \<Rightarrow> (w3\<lparr>grad_enabled := prev\<rparr>, Inl e)
              | (w3, Inr preds) \<Rightarrow> (w3\<lparr>grad_enabled := prev\<rparr>, np_vstack preds)))"

section \<open>\<^verbatim>\<open>train\<close>\<close>

text \<open>
  The collaborators are parameters. \<open>model_fwd\<close> is the model's forward pass with one real
  per row (the target is a single column). \<open>opt_step p s x y\<close> is the body of the
  mini-batch loop, \<^verbatim>\<open>zero_grad(); loss = criterion(model(x), y); loss.backward(); step()\<close>:
  it returns the new parameters and optimizer state, or raises. The two metrics are
  scikit-learn's, and \<open>np_sqrt\<close> is NumPy's square root.
\<close>

record ('p, 'o, 'a) collaborators =
  model_fwd :: "'p \<Rightarrow> bool \<Rightarrow> 'a list \<Rightarrow> error + real list"
  opt_step :: "'p \<Rightarrow> 'o \<Rightarrow> 'a list \<Rightarrow> real list \<Rightarrow> error + ('p \<times> 'o)"
  mean_squared_error :: "real list \<Rightarrow> real list \<Rightarrow> error + real"
  r2_score :: "real list \<Rightarrow> real list \<Rightarrow> error + real"
  np_sqrt :: "real \<Rightarrow> real"

text \<open>
  The fields of \<^verbatim>\<open>config\<close> that \<^verbatim>\<open>train\<close> reads (the learning rate is inside \<open>opt_step\<close>).
  \<open>target_col\<close> is the text that the f-strings render for \<^verbatim>\<open>config.target_col\<close>.
\<close>

record config =
  num_epochs :: int
  train_batch_size :: int
  test_batch_size :: int
  target_col :: string
  model_dir :: string

text \<open>
  What \<^verbatim>\<open>get_dataloaders()\<close> and \<^verbatim>\<open>get_raw_split()\<close> return. \<open>train_loader e\<close> is the list of
  mini-batches that iterating the loader yields in epoch \<open>e\<close>; labels are flattened, one
  real per sample. The test loader is never read.
\<close>

record 'a dataset =
  train_loader :: "int \<Rightarrow> ('a list \<times> real list) list"
  train_images :: "'a list"
  train_labels :: "real list"
  test_images :: "'a list"
  test_labels :: "real list"
  mean_val :: real
  std_val :: real

text \<open>The two locals that only the evaluation branch assigns; \<open>None\<close> is unbound.\<close>

record locals =
  train_preds :: "real list option"
  test_preds :: "real list option"

text \<open>The mini-batch loop of one epoch, lines 67 to 73.\<close>

fun train_batches ::
  "('p, 'o, 'a) collaborators \<Rightarrow> ('p, 'o) world \<Rightarrow> ('a list \<times> real list) list \<Rightarrow>
   error + ('p, 'o) world" where
  "train_batches c w [] = Inr w"
| "train_batches c w ((x_batch, y_batch) # rest) =
     (case opt_step c (params w) (opt_state w) x_batch y_batch of
        Inl e \<Rightarrow> Inl e
      | Inr (p, s) \<Rightarrow> train_batches c (w\<lparr>params := p, opt_state := s\<rparr>) rest)"

text \<open>The schedule of line 76.\<close>

definition should_evaluate :: "int \<Rightarrow> int \<Rightarrow> bool" where
  "should_evaluate epoch n = (epoch mod 5 = 0 \<or> epoch = n - 1)"

text \<open>The evaluation branch, lines 77 to 86.\<close>

definition evaluate ::
  "('p, 'o, 'a) collaborators \<Rightarrow> config \<Rightarrow> 'a dataset \<Rightarrow> int \<Rightarrow> ('p, 'o) world \<Rightarrow>
   error + (('p, 'o) world \<times> locals)" where
  "evaluate c cfg d epoch w =
     (case predict_in_batches (model_fwd c) w (train_images d) (train_batch_size cfg) of
        (w1, Inl e) \<Rightarrow> Inl e
      | (w1, Inr trp) \<Rightarrow>
     (case predict_in_batches (model_fwd c) w1 (test_images d) (test_batch_size cfg) of
        (w2, Inl e) \<Rightarrow> Inl e
      | (w2, Inr tep) \<Rightarrow>
     (case mean_squared_error c (train_labels d) trp of Inl e \<Rightarrow> Inl e | Inr train_mse \<Rightarrow>
     (case mean_squared_error c (test_labels d) tep of Inl e \<Rightarrow> Inl e | Inr test_mse \<Rightarrow>
     (case r2_score c (train_labels d) trp of Inl e \<Rightarrow> Inl e | Inr train_r2 \<Rightarrow>
     (case r2_score c (test_labels d) tep of Inl e \<Rightarrow> Inl e | Inr test_r2 \<Rightarrow>
        Inr (w2\<lparr>trace := trace w2 @ [Evaluated epoch],
                 console := console w2 @
                   [MetricsLine epoch (np_sqrt c train_mse) (np_sqrt c test_mse) train_r2 test_r2]\<rparr>,
             \<lparr>train_preds = Some trp, test_preds = Some tep\<rparr>)))))))"

text \<open>The epoch loop, lines 65 to 86, over the epochs that \<^verbatim>\<open>range\<close> yields.\<close>

fun epoch_loop ::
  "('p, 'o, 'a) collaborators \<Rightarrow> config \<Rightarrow> 'a dataset \<Rightarrow> int list \<Rightarrow>
   ('p, 'o) world \<times> locals \<Rightarrow> error + (('p, 'o) world \<times> locals)" where
  "epoch_loop c cfg d [] s = Inr s"
| "epoch_loop c cfg d (epoch # later) (w, l) =
     (case train_batches c (w\<lparr>training := True\<rparr>) (train_loader d epoch) of
        Inl e \<Rightarrow> Inl e
      | Inr w1 \<Rightarrow>
          (let w2 = w1\<lparr>trace := trace w1 @ [Trained epoch]\<rparr>
           in if should_evaluate epoch (num_epochs cfg)
              then (case evaluate c cfg d epoch w2 of
                      Inl e \<Rightarrow> Inl e
                    | Inr s' \<Rightarrow> epoch_loop c cfg d later s')
              else epoch_loop c cfg d later (w2, l)))"

text \<open>Lines 92 to 95: \<^verbatim>\<open>v * std_val + mean_val\<close> for every element \<open>v\<close> of the array.\<close>

definition denormalize :: "real \<Rightarrow> real \<Rightarrow> real \<Rightarrow> real" where
  "denormalize mean std v = v * std + mean"

text \<open>
  \<^verbatim>\<open>pd.DataFrame({"True": t, "Predicted": p})\<close>: two named columns, which must have the same
  length. \<^verbatim>\<open>to_excel(writer, sheet_name=..., index=...)\<close> turns the frame into a sheet; with
  \<open>index\<close> set it would put the row numbers in a first, unnamed column.
\<close>

definition data_frame :: "real list \<Rightarrow> real list \<Rightarrow> error + (string list \<times> real list list)" where
  "data_frame t p =
     (if length t \<noteq> length p then Inl ValueError
      else Inr ([''True'', ''Predicted''], map (\<lambda>(a, b). [a, b]) (zip t p)))"

definition to_excel :: "string list \<times> real list list \<Rightarrow> string \<Rightarrow> bool \<Rightarrow> sheet" where
  "to_excel frame name index =
     (if index
      then \<lparr>sheet_name = name, header = [] # fst frame,
            rows = map (\<lambda>(k, r). real k # r) (zip [0..<length (snd frame)] (snd frame))\<rparr>
      else \<lparr>sheet_name = name, header = fst frame, rows = snd frame\<rparr>)"

text \<open>
  The file system. A write replaces whatever file the path held and fails on a directory.
  \<^verbatim>\<open>os.makedirs(path, exist_ok)\<close> fails on the empty path and on a path that is a file, and
  on an existing directory unless \<open>exist_ok\<close>; only the leaf directory is recorded.
  \<^verbatim>\<open>os.path.join\<close> is the POSIX one, for two components. Permissions and devices are not
  modelled.
\<close>

definition write_file ::
  "string \<Rightarrow> 'p fs_file \<Rightarrow> ('p, 'o) world \<Rightarrow> error + ('p, 'o) world" where
  "write_file path content w =
     (if path \<in> dirs w then Inl IsADirectoryError
      else Inr (w\<lparr>files := (files w)(path \<mapsto> content), written := written w @ [path]\<rparr>))"

definition os_makedirs :: "string \<Rightarrow> bool \<Rightarrow> ('p, 'o) world \<Rightarrow> error + ('p, 'o) world" where
  "os_makedirs path exist_ok w =
     (if path = [] then Inl FileNotFoundError
      else if path \<in> dom (files w) then Inl FileExistsError
      else if path \<in> dirs w then (if exist_ok then Inr w else Inl FileExistsError)
      else Inr (w\<lparr>dirs := insert path (dirs w)\<rparr>))"

definition os_path_join :: "string \<Rightarrow> string \<Rightarrow> string" where
  "os_path_join a b =
     (if b \<noteq> [] \<and> hd b = CHR ''/'' then b
      else if a = [] \<or> last a = CHR ''/'' then a @ b
      else a @ ''/'' @ b)"

text \<open>
  \<^verbatim>\<open>train()\<close>, from the world in which the model and the optimizer have just been built.
  Lines 89 and 90 turn the two statistics into Python floats, which changes nothing here.
  Reading \<^verbatim>\<open>train_preds\<close> on line 92 or \<^verbatim>\<open>test_preds\<close> on line 93 while unbound raises.
\<close>

definition train ::
  "('p, 'o, 'a) collaborators \<Rightarrow> config \<Rightarrow> 'a dataset \<Rightarrow> ('p, 'o) world \<Rightarrow>
   error + ('p, 'o) world" where
  "train c cfg d w0 =
     (let wp = w0\<lparr>console := console w0 @ [DeviceLine]\<rparr> in
     (case py_range 0 (num_epochs cfg) 1 of Inl e \<Rightarrow> Inl e | Inr epochs \<Rightarrow>
     (case epoch_loop c cfg d epochs (wp, \<lparr>train_preds = None, test_preds = None\<rparr>) of
        Inl e \<Rightarrow> Inl e
      | Inr (w, l) \<Rightarrow>
     (case train_preds l of None \<Rightarrow> Inl UnboundLocalError | Some trp \<Rightarrow>
     (case test_preds l of None \<Rightarrow> Inl UnboundLocalError | Some tep \<Rightarrow>
     (let train_preds_actual = map (denormalize (mean_val d) (std_val d)) trp;
          test_preds_actual = map (denormalize (mean_val d) (std_val d)) tep;
          train_true_actual = map (denormalize (mean_val d) (std_val d)) (train_labels d);
          test_true_actual = map (denormalize (mean_val d) (std_val d)) (test_labels d);
          target = target_col cfg;
          excel_output = ''predictions_vs_actual_col'' @ target @ ''.xlsx''
      in
     (case data_frame train_true_actual train_preds_actual of Inl e \<Rightarrow> Inl e | Inr f1 \<Rightarrow>
     (case data_frame test_true_actual test_preds_actual of Inl e \<Rightarrow> Inl e | Inr f2 \<Rightarrow>
     (case write_file excel_output
             (Workbook [to_excel f1 ''Train'' False, to_excel f2 ''Test'' False]) w of
        Inl e \<Rightarrow> Inl e
      | Inr w4 \<Rightarrow>
     (case os_makedirs (model_dir cfg) True w4 of Inl e \<Rightarrow> Inl e | Inr w5 \<Rightarrow>
     (let model_save_path = os_path_join (model_dir cfg) (''model'' @ target @ ''.pth'')
      in
     (case write_file model_save_path (Checkpoint (params w5) (mean_val d) (std_val d)) w5 of
        Inl e \<Rightarrow> Inl e
      | Inr w6 \<Rightarrow> Inr (w6\<lparr>console := console w6 @ [SavedLine model_save_path]\<rparr>)))))))))))))"

section \<open>Specification-side notions\<close>

text \<open>
  The spec's chunking: consecutive pieces of \<open>B\<close> inputs, the last one possibly shorter.
\<close>

function chunks :: "nat \<Rightarrow> 'a list \<Rightarrow> 'a list list" where
  "chunks B xs = (if B = 0 \<or> xs = [] then [] else take B xs # chunks B (drop B xs))"
  by pat_completeness auto
termination
  by (relation "measure (\<lambda>(B, xs). length xs)") auto

text \<open>The forward passes logged between two worlds, and the log entry of one chunk.\<close>

definition calls_since :: "('p, 'o) world \<Rightarrow> ('p, 'o) world \<Rightarrow> fwd_call list" where
  "calls_since w w' = drop (length (fwd_log w)) (fwd_log w')"

definition logged :: "bool \<Rightarrow> bool \<Rightarrow> 'a list \<Rightarrow> fwd_call" where
  "logged t g c = \<lparr>call_training = t, call_grad = g, call_size = length c\<rparr>"

text \<open>
  The spec's schedule: in every epoch the training phase, followed by the evaluation step
  in every fifth epoch (counted from 0) and in the last one.
\<close>

definition schedule :: "int \<Rightarrow> event list" where
  "schedule n =
     concat (map (\<lambda>e. Trained e # (if e mod 5 = 0 \<or> e = n - 1 then [Evaluated e] else []))
       [0..n - 1])"

definition evaluation_epochs :: "int \<Rightarrow> int list" where
  "evaluation_epochs n = filter (\<lambda>e. e mod 5 = 0 \<or> e = n - 1) [0..n - 1]"

text \<open>The epochs of the metrics lines on the console.\<close>

fun metrics_epochs :: "output_line list \<Rightarrow> int list" where
  "metrics_epochs [] = []"
| "metrics_epochs (MetricsLine e a b c d # ls) = e # metrics_epochs ls"
| "metrics_epochs (l # ls) = metrics_epochs ls"

text \<open>
  The forward passes of one evaluation step: the chunks of the whole train split, then the
  chunks of the whole test split.
\<close>

definition evaluation_calls :: "config \<Rightarrow> 'a dataset \<Rightarrow> fwd_call list" where
  "evaluation_calls cfg d =
     map (logged False False) (chunks (nat (train_batch_size cfg)) (train_images d)) @
     map (logged False False) (chunks (nat (test_batch_size cfg)) (test_images d))"

text \<open>
  The world right after \<^verbatim>\<open>ResNet_Model()\<close> and \<^verbatim>\<open>optim.Adam(...)\<close>: a new module is in training
  mode, gradients are enabled, nothing has run and the file system is empty.
\<close>

definition fresh_world :: "'p \<Rightarrow> 'o \<Rightarrow> ('p, 'o) world" where
  "fresh_world p s =
     \<lparr>params = p, opt_state = s, training = True, grad_enabled = True, fwd_log = [],
      trace = [], console = [], dirs = {}, files = Map.empty, written = []\<rparr>"

text \<open>
  The spec's training phase as a function of the parameters alone: one optimizer step per
  mini-batch, and the parameters and optimizer state after a list of epochs.
\<close>

fun optimizer_updates ::
  "('p, 'o, 'a) collaborators \<Rightarrow> 'p \<times> 'o \<Rightarrow> ('a list \<times> real list) list \<Rightarrow> error + ('p \<times> 'o)" where
  "optimizer_updates c ps [] = Inr ps"
| "optimizer_updates c (p, s) ((x, y) # rest) =
     (case opt_step c p s x y of Inl e \<Rightarrow> Inl e | Inr ps' \<Rightarrow> optimizer_updates c ps' rest)"

fun params_after ::
  "('p, 'o, 'a) collaborators \<Rightarrow> 'a dataset \<Rightarrow> 'p \<times> 'o \<Rightarrow> int list \<Rightarrow> error + ('p \<times> 'o)" where
  "params_after c d ps [] = Inr ps"
| "params_after c d ps (e # es) =
     (case optimizer_updates c ps (train_loader d e) of
        Inl x \<Rightarrow> Inl x
      | Inr ps' \<Rightarrow> params_after c d ps' es)"

text \<open>
  The spec's evaluation step for given parameters: the batched predictions over the whole
  train and test splits, then train RMSE, test RMSE, train R2 and test R2, the RMSE being
  the root of the mean squared error, in one line with the epoch. \<open>metrics_line_at\<close> is
  the line of epoch \<open>e\<close>: that of the parameters after the training of epochs 0 to \<open>e\<close>.
\<close>

definition batched_predictions ::
  "('p \<Rightarrow> bool \<Rightarrow> 'a list \<Rightarrow> error + 'b list) \<Rightarrow> 'p \<Rightarrow> 'a list \<Rightarrow> int \<Rightarrow> error + 'b list" where
  "batched_predictions fwd p images batch_size =
     snd (predict_in_batches fwd (fresh_world p ()) images batch_size)"

definition metrics_of ::
  "('p, 'o, 'a) collaborators \<Rightarrow> config \<Rightarrow> 'a dataset \<Rightarrow> 'p \<Rightarrow> int \<Rightarrow> output_line option" where
  "metrics_of c cfg d p e =
     (case batched_predictions (model_fwd c) p (train_images d) (train_batch_size cfg) of
        Inl x \<Rightarrow> None
      | Inr trp \<Rightarrow>
     (case batched_predictions (model_fwd c) p (test_images d) (test_batch_size cfg) of
        Inl x \<Rightarrow> None
      | Inr tep \<Rightarrow>
     (case mean_squared_error c (train_labels d) trp of Inl x \<Rightarrow> None | Inr train_mse \<Rightarrow>
     (case mean_squared_error c (test_labels d) tep of Inl x \<Rightarrow> None | Inr test_mse \<Rightarrow>
     (case r2_score c (train_labels d) trp of Inl x \<Rightarrow> None | Inr train_r2 \<Rightarrow>
     (case r2_score c (test_labels d) tep of Inl x \<Rightarrow> None | Inr test_r2 \<Rightarrow>
        Some (MetricsLine e (np_sqrt c train_mse) (np_sqrt c test_mse) train_r2 test_r2)))))))"

definition metrics_line_at ::
  "('p, 'o, 'a) collaborators \<Rightarrow> config \<Rightarrow> 'a dataset \<Rightarrow> 'p \<times> 'o \<Rightarrow> int \<Rightarrow> output_line option" where
  "metrics_line_at c cfg d ps e =
     (case params_after c d ps [0..e] of
        Inl x \<Rightarrow> None
      | Inr (p, s) \<Rightarrow> metrics_of c cfg d p e)"

text \<open>
  The spec's report sheet: columns "True" and "Predicted" and nothing else, one row per
  sample, both values on the original scale.
\<close>

definition report_sheet :: "string \<Rightarrow> real \<Rightarrow> real \<Rightarrow> real list \<Rightarrow> real list \<Rightarrow> sheet" where
  "report_sheet name mean std labels preds =
     \<lparr>sheet_name = name, header = [''True'', ''Predicted''],
      rows = map (\<lambda>(t, p). [t * std + mean, p * std + mean]) (zip labels preds)\<rparr>"

text \<open>The two paths of lines 99 and 114.\<close>

definition excel_path :: "config \<Rightarrow> string" where
  "excel_path cfg = ''predictions_vs_actual_col'' @ target_col cfg @ ''.xlsx''"

definition checkpoint_path :: "config \<Rightarrow> string" where
  "checkpoint_path cfg = os_path_join (model_dir cfg) (''model'' @ target_col cfg @ ''.pth'')"


section \<open>Concrete inputs\<close>

text \<open>
  Two models. \<open>scale_fwd\<close> multiplies every input by its single weight, each row from its
  own input. \<open>count_fwd\<close> returns, for every input, the size of the batch it came in, as a
  layer that uses batch statistics in evaluation mode would.
\<close>

definition scale_fwd :: "real \<Rightarrow> bool \<Rightarrow> real list \<Rightarrow> error + real list" where
  "scale_fwd p t xs = Inr (map (\<lambda>x. p * x) xs)"

definition count_fwd :: "nat \<Rightarrow> bool \<Rightarrow> nat list \<Rightarrow> error + nat list" where
  "count_fwd p t xs = Inr (map (\<lambda>x. length xs) xs)"

text \<open>
  A run of \<^verbatim>\<open>train\<close>. The model is \<open>scale_fwd\<close> with weight 1 and every optimizer step adds 1
  to the weight; the metrics are the mean squared error and the coefficient of
  determination, which refuse empty and unequal columns, and the square root is the real
  one. There are three train images in mini-batches of two and one and two test images, the
  labels being 16 times the images; the directory \<^verbatim>\<open>out\<close> and an older checkpoint exist
  already. \<open>demo_final\<close> is the world after seven epochs.
\<close>

definition squared_errors :: "real list \<Rightarrow> real list \<Rightarrow> real" where
  "squared_errors t p = sum_list (map (\<lambda>(a, b). (a - b) * (a - b)) (zip t p))"

definition demo_mse :: "real list \<Rightarrow> real list \<Rightarrow> error + real" where
  "demo_mse t p =
     (if t = [] \<or> length t \<noteq> length p then Inl ValueError
      else Inr (squared_errors t p / real (length t)))"

definition demo_r2 :: "real list \<Rightarrow> real list \<Rightarrow> error + real" where
  "demo_r2 t p =
     (if t = [] \<or> length t \<noteq> length p then Inl ValueError
      else (let total = squared_errors t (map (\<lambda>a. sum_list t / real (length t)) t)
            in if total = 0 then Inr (if squared_errors t p = 0 then 1 else 0)
               else Inr (1 - squared_errors t p / total)))"

definition demo_collab :: "(real, nat, real) collaborators" where
  "demo_collab =
     \<lparr>model_fwd = scale_fwd,
      opt_step = (\<lambda>p s x y. Inr (p + 1, Suc s)),
      mean_squared_error = demo_mse,
      r2_score = demo_r2,
      np_sqrt = sqrt\<rparr>"

definition demo_config :: "int \<Rightarrow> config" where
  "demo_config n =
     \<lparr>num_epochs = n, train_batch_size = 2, test_batch_size = 2, target_col = ''3'',
      model_dir = ''out''\<rparr>"

definition demo_data :: "real dataset" where
  "demo_data =
     \<lparr>train_loader = (\<lambda>e. [([1, 5], [16, 80]), ([7], [112])]),
      train_images = [1, 5, 7], train_labels = [16, 80, 112],
      test_images = [7, 17], test_labels = [112, 272],
      mean_val = 10, std_val = 2\<rparr>"

definition demo_world :: "(real, nat) world" where
  "demo_world = (fresh_world 1 0)\<lparr>dirs := {''out''},
      files := [''out/model3.pth'' \<mapsto> Checkpoint 0 0 1]\<rparr>"

definition demo_final :: "(real, nat) world" where
  "demo_final =
     \<lparr>params = 15, opt_state = 14, training = False, grad_enabled = True,
      fwd_log =
        [logged False False [1, 5 :: real], logged False False [7 :: real],
         logged False False [7, 17 :: real],
         logged False False [1, 5 :: real], logged False False [7 :: real],
         logged False False [7, 17 :: real],
         logged False False [1, 5 :: real], logged False False [7 :: real],
         logged False False [7, 17 :: real]],
      trace =
        [Trained 0, Evaluated 0, Trained 1, Trained 2, Trained 3, Trained 4,
         Trained 5, Evaluated 5, Trained 6, Evaluated 6],
      console =
        [DeviceLine,
         MetricsLine 0 65 169 (- (23689 / 14336)) (- (22161 / 6400)),
         MetricsLine 5 15 39 (12311 / 14336) (4879 / 6400),
         MetricsLine 6 5 13 (14111 / 14336) (6231 / 6400),
         SavedLine ''out/model3.pth''],
      dirs = {''out''},
      files =
        [''predictions_vs_actual_col3.xlsx'' \<mapsto>
           Workbook
             [\<lparr>sheet_name = ''Train'', header = [''True'', ''Predicted''],
               rows = [[42, 40], [170, 160], [234, 220]]\<rparr>,
              \<lparr>sheet_name = ''Test'', header = [''True'', ''Predicted''],
               rows = [[234, 220], [554, 520]]\<rparr>],
         ''out/model3.pth'' \<mapsto> Checkpoint 15 10 2],
      written = [''predictions_vs_actual_col3.xlsx'', ''out/model3.pth'']\<rparr>"

section \<open>Properties of \<^verbatim>\<open>predict_in_batches\<close>\<close>

declare range_up.simps [simp del] range_down.simps [simp del] chunks.simps [simp del]

lemma range_up_stop: "stop \<le> i \<Longrightarrow> range_up i stop step = []"
  by (subst range_up.simps) simp

lemma range_down_start: "i \<le> stop \<Longrightarrow> range_down i stop step = []"
  by (subst range_down.simps) simp

lemma chunks_Nil [simp]: "chunks B [] = []"
  by (subst chunks.simps) simp

lemma concat_chunks: "0 < B \<Longrightarrow> concat (chunks B xs) = xs"
proof (induction B xs rule: chunks.induct)
  case (1 B xs)
  then show ?case by (subst chunks.simps) auto
qed

lemma chunks_bounded: "c \<in> set (chunks B xs) \<Longrightarrow> c \<noteq> [] \<and> length c \<le> B"
proof (induction B xs rule: chunks.induct)
  case (1 B xs)
  from "1.prems" have nz: "B \<noteq> 0" "xs \<noteq> []"
    by (subst (asm) chunks.simps, auto split: if_splits)+
  with "1.prems" have "c = take B xs \<or> c \<in> set (chunks B (drop B xs))"
    by (subst (asm) chunks.simps) auto
  then show ?case using "1.IH" nz by auto
qed

lemma slice_take:
  assumes "0 \<le> i" "i < int (length xs)" "0 < B"
  shows "py_slice xs i (i + B) = take (nat B) (drop (nat i) xs)"
proof -
  have a: "clip_index (int (length xs)) i = i"
    using assms by (simp add: clip_index_def)
  have b: "clip_index (int (length xs)) (i + B) = min (int (length xs)) (i + B)"
    using assms by (simp add: clip_index_def)
  have "take (nat (min (int (length xs)) (i + B) - i)) (drop (nat i) xs)
          = take (nat B) (drop (nat i) xs)"
  proof (cases "int (length xs) \<le> i + B")
    case True
    then have "length (drop (nat i) xs) \<le> nat B" using assms by simp
    moreover have "length (drop (nat i) xs) \<le> nat (min (int (length xs)) (i + B) - i)"
      using True assms by simp
    ultimately show ?thesis by simp
  next
    case False
    then show ?thesis by (simp add: min_def)
  qed
  then show ?thesis by (simp add: py_slice_def Let_def a b)
qed

text \<open>The loop touches nothing but the log of forward passes.\<close>

lemma predict_loop_frame:
  "predict_loop fwd images B idx w preds = (w', r) \<Longrightarrow>
     params w' = params w \<and> opt_state w' = opt_state w \<and> training w' = training w \<and>
     grad_enabled w' = grad_enabled w \<and> trace w' = trace w \<and> console w' = console w \<and>
     dirs w' = dirs w \<and> files w' = files w \<and> written w' = written w"
proof (induction idx arbitrary: w preds)
  case Nil
  then show ?case by simp
next
  case (Cons i idx)
  show ?case
  proof (cases "fwd (params w) (training w) (py_slice images i (i + B))")
    case (Inl e)
    with Cons.prems show ?thesis by (auto simp: Let_def)
  next
    case (Inr pred)
    with Cons.prems Cons.IH show ?thesis by (fastforce simp: Let_def)
  qed
qed

text \<open>Every pass of the loop is logged with the mode the loop was entered in.\<close>

lemma predict_loop_log:
  "predict_loop fwd images B idx w preds = (w', r) \<Longrightarrow>
     \<exists>new. fwd_log w' = fwd_log w @ new \<and>
       (\<forall>c \<in> set new. call_training c = training w \<and> call_grad c = grad_enabled w)"
proof (induction idx arbitrary: w preds)
  case Nil
  then show ?case by simp
next
  case (Cons i idx)
  let ?w' = "w\<lparr>fwd_log := fwd_log w @
      [\<lparr>call_training = training w, call_grad = grad_enabled w,
        call_size = length (py_slice images i (i + B))\<rparr>]\<rparr>"
  show ?case
  proof (cases "fwd (params w) (training w) (py_slice images i (i + B))")
    case (Inl e)
    with Cons.prems have "w' = ?w'" by (auto simp: Let_def)
    then show ?thesis by simp
  next
    case (Inr pred)
    with Cons.prems have "predict_loop fwd images B idx ?w' (preds @ [pred]) = (w', r)"
      by (simp add: Let_def)
    from Cons.IH[OF this] obtain new where
      "fwd_log w' = fwd_log ?w' @ new"
      "\<forall>c \<in> set new. call_training c = training ?w' \<and> call_grad c = grad_enabled ?w'"
      by blast
    then show ?thesis by auto
  qed
qed

text \<open>
  A run of the loop that succeeds has passed the chunks of the input, in order, to the
  model, and has collected the model's answers in the same order.
\<close>

lemma predict_loop_chunks:
  "0 \<le> i \<Longrightarrow>
   predict_loop fwd images B (range_up i (int (length images)) B) w preds = (w', Inr r) \<Longrightarrow>
     fwd_log w' = fwd_log w @
        map (logged (training w) (grad_enabled w)) (chunks (nat B) (drop (nat i) images)) \<and>
     (\<exists>outs. r = preds @ outs \<and>
        map (fwd (params w) (training w)) (chunks (nat B) (drop (nat i) images)) = map Inr outs)"
proof (induction i "int (length images)" B arbitrary: w preds rule: range_up.induct)
  case (1 i B)
  show ?case
  proof (cases "0 < B \<and> i < int (length images)")
    case False
    then have "range_up i (int (length images)) B = []"
      by (subst range_up.simps) auto
    moreover from False "1.prems" have "chunks (nat B) (drop (nat i) images) = []"
      by (subst chunks.simps) auto
    ultimately show ?thesis using "1.prems" by auto
  next
    case True
    let ?b = "take (nat B) (drop (nat i) images)"
    let ?w' = "w\<lparr>fwd_log := fwd_log w @ [logged (training w) (grad_enabled w) ?b]\<rparr>"
    have rg: "range_up i (int (length images)) B = i # range_up (i + B) (int (length images)) B"
      using True by (subst range_up.simps) auto
    have sl: "py_slice images i (i + B) = ?b"
      using True "1.prems" by (simp add: slice_take)
    have ch: "chunks (nat B) (drop (nat i) images) =
                ?b # chunks (nat B) (drop (nat (i + B)) images)"
      using True "1.prems" by (subst chunks.simps) (auto simp: nat_add_distrib add.commute)
    from "1.prems"(2) obtain pred where
      fw: "fwd (params w) (training w) ?b = Inr pred" and
      rest: "predict_loop fwd images B (range_up (i + B) (int (length images)) B) ?w'
               (preds @ [pred]) = (w', Inr r)"
      by (auto simp: rg sl Let_def logged_def split: sum.splits)
    have "0 \<le> i + B" using True "1.prems" by simp
    from "1.hyps"[OF True this rest] obtain outs where
      lg: "fwd_log w' = fwd_log ?w' @
             map (logged (training ?w') (grad_enabled ?w'))
               (chunks (nat B) (drop (nat (i + B)) images))" and
      rs: "r = (preds @ [pred]) @ outs" and
      fs: "map (fwd (params ?w') (training ?w')) (chunks (nat B) (drop (nat (i + B)) images))
             = map Inr outs"
      by blast
    have "r = preds @ (pred # outs)" using rs by simp
    moreover have "map (fwd (params w) (training w)) (chunks (nat B) (drop (nat i) images))
                     = map Inr (pred # outs)"
      using fs fw by (simp add: ch)
    ultimately show ?thesis using lg by (auto simp: ch)
  qed
qed

lemma predict_loop_samplewise:
  assumes sw: "\<And>xs. fwd (params w) False xs = Inr (map g xs)"
  shows "training w = False \<Longrightarrow> 0 \<le> i \<Longrightarrow>
     \<exists>w'. predict_loop fwd images B (range_up i (int (length images)) B) w preds =
       (w', Inr (preds @ map (map g) (chunks (nat B) (drop (nat i) images))))"
  using sw
proof (induction i "int (length images)" B arbitrary: w preds rule: range_up.induct)
  case (1 i B)
  show ?case
  proof (cases "0 < B \<and> i < int (length images)")
    case False
    then have "range_up i (int (length images)) B = []"
      by (subst range_up.simps) auto
    moreover from False "1.prems" have "chunks (nat B) (drop (nat i) images) = []"
      by (subst chunks.simps) auto
    ultimately show ?thesis by simp
  next
    case True
    let ?b = "take (nat B) (drop (nat i) images)"
    let ?w' = "w\<lparr>fwd_log := fwd_log w @ [logged (training w) (grad_enabled w) ?b]\<rparr>"
    have rg: "range_up i (int (length images)) B = i # range_up (i + B) (int (length images)) B"
      using True by (subst range_up.simps) auto
    have sl: "py_slice images i (i + B) = ?b"
      using True "1.prems" by (simp add: slice_take)
    have ch: "chunks (nat B) (drop (nat i) images) =
                ?b # chunks (nat B) (drop (nat (i + B)) images)"
      using True "1.prems" by (subst chunks.simps) (auto simp: nat_add_distrib add.commute)
    have "\<exists>w'. predict_loop fwd images B (range_up (i + B) (int (length images)) B) ?w'
             (preds @ [map g ?b]) =
           (w', Inr ((preds @ [map g ?b]) @
                  map (map g) (chunks (nat B) (drop (nat (i + B)) images))))"
      using True "1.prems" by (intro "1.hyps") auto
    then show ?thesis
      using "1.prems" by (simp add: rg sl ch Let_def logged_def)
  qed
qed

lemma predict_in_batches_frame:
  "predict_in_batches fwd w images B = (w', r) \<Longrightarrow>
     params w' = params w \<and> opt_state w' = opt_state w \<and> training w' = False \<and>
     grad_enabled w' = grad_enabled w \<and> trace w' = trace w \<and> console w' = console w \<and>
     dirs w' = dirs w \<and> files w' = files w \<and> written w' = written w"
proof (cases "py_range 0 (int (length images)) B")
  case (Inl e)
  then show "predict_in_batches fwd w images B = (w', r) \<Longrightarrow> ?thesis"
    by (auto simp: predict_in_batches_def Let_def)
next
  case (Inr idx)
  assume run: "predict_in_batches fwd w images B = (w', r)"
  obtain w3 r3 where lp:
    "predict_loop fwd images B idx (w\<lparr>training := False, grad_enabled := False\<rparr>) [] = (w3, r3)"
    by (cases "predict_loop fwd images B idx (w\<lparr>training := False, grad_enabled := False\<rparr>) []")
  from run Inr lp have "w' = w3\<lparr>grad_enabled := grad_enabled w\<rparr>"
    by (auto simp: predict_in_batches_def Let_def split: sum.splits)
  with predict_loop_frame[OF lp] show ?thesis by simp
qed

lemma predict_in_batches_calls:
  "predict_in_batches fwd w images B = (w', r) \<Longrightarrow>
     \<exists>new. fwd_log w' = fwd_log w @ new \<and>
       (\<forall>c \<in> set new. \<not> call_training c \<and> \<not> call_grad c)"
proof (cases "py_range 0 (int (length images)) B")
  case (Inl e)
  then show "predict_in_batches fwd w images B = (w', r) \<Longrightarrow> ?thesis"
    by (auto simp: predict_in_batches_def Let_def)
next
  case (Inr idx)
  assume run: "predict_in_batches fwd w images B = (w', r)"
  obtain w3 r3 where lp:
    "predict_loop fwd images B idx (w\<lparr>training := False, grad_enabled := False\<rparr>) [] = (w3, r3)"
    by (cases "predict_loop fwd images B idx (w\<lparr>training := False, grad_enabled := False\<rparr>) []")
  from run Inr lp have "w' = w3\<lparr>grad_enabled := grad_enabled w\<rparr>"
    by (auto simp: predict_in_batches_def Let_def split: sum.splits)
  with predict_loop_log[OF lp] show ?thesis by simp
qed

lemma predict_in_batches_success:
  assumes run: "predict_in_batches fwd w images B = (w', Inr r)"
  shows "0 < B \<and> images \<noteq> [] \<and>
     fwd_log w' = fwd_log w @ map (logged False False) (chunks (nat B) images) \<and>
     (\<exists>outs. r = concat outs \<and>
        map (fwd (params w) False) (chunks (nat B) images) = map Inr outs)"
proof -
  let ?w2 = "w\<lparr>training := False, grad_enabled := False\<rparr>"
  have nz: "B \<noteq> 0"
    using run by (auto simp: predict_in_batches_def py_range_def Let_def)
  have pos: "0 < B"
  proof (rule ccontr)
    assume "\<not> 0 < B"
    with nz have "py_range 0 (int (length images)) B = Inr []"
      by (simp add: py_range_def range_down_start)
    with run show False
      by (simp add: predict_in_batches_def Let_def np_vstack_def)
  qed
  then have rg: "py_range 0 (int (length images)) B = Inr (range_up 0 (int (length images)) B)"
    by (simp add: py_range_def)
  obtain w3 r3 where lp:
    "predict_loop fwd images B (range_up 0 (int (length images)) B) ?w2 [] = (w3, r3)"
    by (cases "predict_loop fwd images B (range_up 0 (int (length images)) B) ?w2 []")
  from run rg lp obtain preds where r3: "r3 = Inr preds" and vs: "np_vstack preds = Inr r"
    and w': "w' = w3\<lparr>grad_enabled := grad_enabled w\<rparr>"
    by (auto simp: predict_in_batches_def Let_def split: sum.splits)
  from predict_loop_chunks[OF _ lp[unfolded r3]] obtain outs where
    lg: "fwd_log w3 = fwd_log w @ map (logged False False) (chunks (nat B) images)" and
    ps: "preds = outs" and
    fs: "map (fwd (params w) False) (chunks (nat B) images) = map Inr outs"
    by auto
  from vs have ne: "preds \<noteq> []" and rc: "r = concat preds"
    by (auto simp: np_vstack_def split: if_splits)
  have "images \<noteq> []"
  proof
    assume "images = []"
    with fs ps ne show False by simp
  qed
  with pos lg fs ps rc w' show ?thesis by auto
qed

text \<open>
  C1, as amended. For a model whose forward pass in evaluation mode computes every output
  row from its own image alone, for an input of at least one image and a batch size of at
  least 1: \<^verbatim>\<open>predict_in_batches\<close> returns what the model returns on the whole input at once,
  one output per image; the model was called on the consecutive chunks of the input, each
  of at most \<open>batch_size\<close> images, which together are the input in order. (Numeric
  tolerance plays no part: the outputs are equal.)
\<close>

theorem predict_in_batches_whole_input:
  assumes sw: "\<And>xs. fwd (params w) False xs = Inr (map g xs)"
    and ne: "images \<noteq> []"
    and bs: "1 \<le> batch_size"
  shows "snd (predict_in_batches fwd w images batch_size) = fwd (params w) False images
     \<and> (\<exists>out. snd (predict_in_batches fwd w images batch_size) = Inr out
           \<and> length out = length images)
     \<and> calls_since w (fst (predict_in_batches fwd w images batch_size))
          = map (logged False False) (chunks (nat batch_size) images)
     \<and> concat (chunks (nat batch_size) images) = images
     \<and> (\<forall>c \<in> set (chunks (nat batch_size) images). length c \<le> nat batch_size)"
proof -
  let ?w2 = "w\<lparr>training := False, grad_enabled := False\<rparr>"
  have pos: "0 < batch_size" using bs by simp
  have cc: "concat (chunks (nat batch_size) images) = images"
    using pos by (simp add: concat_chunks)
  have rg: "py_range 0 (int (length images)) batch_size
              = Inr (range_up 0 (int (length images)) batch_size)"
    using pos by (simp add: py_range_def)
  have sw2: "\<And>xs. fwd (params ?w2) False xs = Inr (map g xs)"
    using sw by simp
  from predict_loop_samplewise[of fwd ?w2 g 0 images batch_size "[]", OF sw2]
  obtain w3 where lp:
    "predict_loop fwd images batch_size (range_up 0 (int (length images)) batch_size) ?w2 []
       = (w3, Inr (map (map g) (chunks (nat batch_size) images)))"
    by auto
  have "chunks (nat batch_size) images \<noteq> []"
    using cc ne by auto
  then have vs: "np_vstack (map (map g) (chunks (nat batch_size) images)) = Inr (map g images)"
    by (simp add: np_vstack_def map_concat[symmetric] cc)
  have run: "predict_in_batches fwd w images batch_size
               = (w3\<lparr>grad_enabled := grad_enabled w\<rparr>, Inr (map g images))"
    by (simp add: predict_in_batches_def Let_def rg lp vs)
  from predict_in_batches_success[OF run]
  have "fwd_log (w3\<lparr>grad_enabled := grad_enabled w\<rparr>)
          = fwd_log w @ map (logged False False) (chunks (nat batch_size) images)"
    by simp
  then have "calls_since w (fst (predict_in_batches fwd w images batch_size))
               = map (logged False False) (chunks (nat batch_size) images)"
    by (simp add: run calls_since_def)
  moreover have "\<forall>c \<in> set (chunks (nat batch_size) images). length c \<le> nat batch_size"
    using chunks_bounded by blast
  ultimately show ?thesis
    using run sw cc by simp
qed

theorem predict_in_batches_whole_input_witness:
  "[1, 2, 3 :: real] \<noteq> [] \<and> (1 :: int) \<le> 2
   \<and> snd (predict_in_batches scale_fwd (fresh_world 2 (0 :: nat)) [1, 2, 3] 2) = Inr [2, 4, 6]
   \<and> scale_fwd 2 False [1, 2, 3] = Inr [2, 4, 6]
   \<and> map call_size (calls_since (fresh_world 2 (0 :: nat))
        (fst (predict_in_batches scale_fwd (fresh_world 2 (0 :: nat)) [1, 2, 3] 2))) = [2, 1]"
proof -
  have h1: "\<And>xs. scale_fwd (params (fresh_world 2 (0 :: nat))) False xs
              = Inr (map (\<lambda>x. 2 * x) xs)"
    by (simp add: scale_fwd_def fresh_world_def)
  have h2: "[1, 2, 3 :: real] \<noteq> []" by simp
  have h3: "(1 :: int) \<le> 2" by simp
  have ch: "chunks 2 [1, 2, 3 :: real] = [[1, 2], [3]]"
    by (simp add: chunks.simps)
  from predict_in_batches_whole_input
         [where fwd = scale_fwd and w = "fresh_world 2 (0 :: nat)" and g = "\<lambda>x. 2 * x"
            and images = "[1, 2, 3]" and batch_size = 2, OF h1 h2 h3]
  show ?thesis
    by (simp add: ch logged_def scale_fwd_def fresh_world_def)
qed

text \<open>
  C1, as stated, fails twice. On an empty input the call raises \<open>ValueError\<close> instead of
  returning no outputs; and for a model that looks at its batch, the batched outputs
  differ from the outputs on the whole input.
\<close>

theorem predict_in_batches_whole_input_counterexample:
  "snd (predict_in_batches count_fwd (fresh_world (0 :: nat) (0 :: nat)) [] 1) = Inl ValueError
   \<and> snd (predict_in_batches count_fwd (fresh_world (0 :: nat) (0 :: nat)) [7, 8, 9] 2)
        = Inr [2, 2, 1]
   \<and> count_fwd 0 False [7, 8, 9] = Inr [3, 3, 3]"
  by (simp add: predict_in_batches_def py_range_def range_up.simps py_slice_def clip_index_def
      np_vstack_def count_fwd_def fresh_world_def Let_def)

text \<open>
  C2. On an input of zero images \<^verbatim>\<open>predict_in_batches\<close> raises \<open>ValueError\<close>, whatever the
  model and the batch size: no pass of the loop runs, and \<^verbatim>\<open>np.vstack\<close> refuses the empty
  list of predictions (for a batch size of 0, \<^verbatim>\<open>range\<close> raises first). The claim asks for
  an empty output and no error.
\<close>

theorem predict_in_batches_empty_input:
  "snd (predict_in_batches fwd w [] batch_size) = Inl ValueError"
  by (simp add: predict_in_batches_def py_range_def np_vstack_def range_up_stop
      range_down_start)

text \<open>
  C8. Every call leaves the model in evaluation mode, whatever its mode before; every
  forward pass of the call runs in evaluation mode with gradient tracking off; and the
  gradient mode is back at its previous value on return, while the \<^verbatim>\<open>training\<close> flag is
  not restored.
\<close>

theorem predict_in_batches_eval_mode:
  "training (fst (predict_in_batches fwd w images batch_size)) = False
   \<and> grad_enabled (fst (predict_in_batches fwd w images batch_size)) = grad_enabled w
   \<and> fwd_log (fst (predict_in_batches fwd w images batch_size))
        = fwd_log w @ calls_since w (fst (predict_in_batches fwd w images batch_size))
   \<and> (\<forall>c \<in> set (calls_since w (fst (predict_in_batches fwd w images batch_size))).
         \<not> call_training c \<and> \<not> call_grad c)"
proof -
  obtain w' r where run: "predict_in_batches fwd w images batch_size = (w', r)"
    by (cases "predict_in_batches fwd w images batch_size")
  from predict_in_batches_calls[OF run] obtain new where
    "fwd_log w' = fwd_log w @ new" "\<forall>c \<in> set new. \<not> call_training c \<and> \<not> call_grad c"
    by blast
  then show ?thesis
    using predict_in_batches_frame[OF run] by (simp add: run calls_since_def)
qed

theorem predict_in_batches_eval_mode_witness:
  "training (fresh_world (2 :: real) (0 :: nat)) = True
   \<and> training (fst (predict_in_batches scale_fwd (fresh_world 2 (0 :: nat)) [1, 2, 3] 2)) = False
   \<and> grad_enabled (fst (predict_in_batches scale_fwd (fresh_world 2 (0 :: nat)) [1, 2, 3] 2))
        = True
   \<and> calls_since (fresh_world 2 (0 :: nat))
        (fst (predict_in_batches scale_fwd (fresh_world 2 (0 :: nat)) [1, 2, 3] 2))
        = [\<lparr>call_training = False, call_grad = False, call_size = 2\<rparr>,
           \<lparr>call_training = False, call_grad = False, call_size = 1\<rparr>]"
  using predict_in_batches_eval_mode[of scale_fwd "fresh_world 2 (0 :: nat)" "[1, 2, 3]" 2]
  by (simp add: predict_in_batches_def py_range_def range_up.simps py_slice_def clip_index_def
      np_vstack_def scale_fwd_def fresh_world_def calls_since_def Let_def)

text \<open>
  C9. A call leaves the model's parameters as they were, whether it returns or raises.
\<close>

theorem predict_in_batches_keeps_params:
  "params (fst (predict_in_batches fwd w images batch_size)) = params w"
proof -
  obtain w' r where run: "predict_in_batches fwd w images batch_size = (w', r)"
    by (cases "predict_in_batches fwd w images batch_size")
  from predict_in_batches_frame[OF run] show ?thesis
    by (simp add: run)
qed

section \<open>Properties of \<^verbatim>\<open>train\<close>\<close>

lemma range_up_upto: "range_up i n 1 = [i..n - 1]"
proof (induction i n "1 :: int" rule: range_up.induct)
  case (1 i n)
  show ?case
  proof (cases "i < n")
    case True
    then have "range_up i n 1 = i # range_up (i + 1) n 1"
      by (subst range_up.simps) simp
    also have "\<dots> = i # [i + 1..n - 1]" using True "1.hyps" by simp
    also have "\<dots> = [i..n - 1]" using True by (simp add: upto_rec1)
    finally show ?thesis .
  next
    case False
    then show ?thesis by (simp add: range_up_stop)
  qed
qed

lemma train_batches_frame:
  "train_batches c w bs = Inr w' \<Longrightarrow>
     training w' = training w \<and> grad_enabled w' = grad_enabled w \<and> fwd_log w' = fwd_log w \<and>
     trace w' = trace w \<and> console w' = console w \<and> dirs w' = dirs w \<and>
     files w' = files w \<and> written w' = written w"
proof (induction bs arbitrary: w)
  case Nil
  then show ?case by simp
next
  case (Cons b bs)
  obtain x y where b: "b = (x, y)" by (cases b)
  from Cons.prems obtain p s where
    "train_batches c (w\<lparr>params := p, opt_state := s\<rparr>) bs = Inr w'"
    by (auto simp: b split: sum.splits)
  from Cons.IH[OF this] show ?case by simp
qed

lemma predict_loop_params_only:
  "params v = params w \<Longrightarrow> training v = training w \<Longrightarrow>
     snd (predict_loop fwd images B idx v preds) = snd (predict_loop fwd images B idx w preds)"
proof (induction idx arbitrary: v w preds)
  case Nil
  then show ?case by simp
next
  case (Cons i idx)
  show ?case
  proof (cases "fwd (params w) (training w) (py_slice images i (i + B))")
    case (Inl e)
    with Cons.prems show ?thesis by (simp add: Let_def)
  next
    case (Inr pred)
    let ?e = "\<lambda>u. u\<lparr>fwd_log := fwd_log u @
        [\<lparr>call_training = training u, call_grad = grad_enabled u,
          call_size = length (py_slice images i (i + B))\<rparr>]\<rparr>"
    have "snd (predict_loop fwd images B idx (?e v) (preds @ [pred]))
            = snd (predict_loop fwd images B idx (?e w) (preds @ [pred]))"
      using Cons.prems by (intro Cons.IH) simp_all
    with Inr Cons.prems show ?thesis by (simp add: Let_def)
  qed
qed

lemma predict_in_batches_params_only:
  assumes "params v = params w"
  shows "snd (predict_in_batches fwd v images B) = snd (predict_in_batches fwd w images B)"
proof (cases "py_range 0 (int (length images)) B")
  case (Inl e)
  then show ?thesis by (simp add: predict_in_batches_def Let_def)
next
  case (Inr idx)
  let ?v2 = "v\<lparr>training := False, grad_enabled := False\<rparr>"
  let ?w2 = "w\<lparr>training := False, grad_enabled := False\<rparr>"
  have eq: "snd (predict_loop fwd images B idx ?v2 []) = snd (predict_loop fwd images B idx ?w2 [])"
    using assms by (intro predict_loop_params_only) simp_all
  obtain v3 rv where lv: "predict_loop fwd images B idx ?v2 [] = (v3, rv)"
    by (cases "predict_loop fwd images B idx ?v2 []")
  obtain w3 rw where lw: "predict_loop fwd images B idx ?w2 [] = (w3, rw)"
    by (cases "predict_loop fwd images B idx ?w2 []")
  from eq lv lw have "rv = rw" by simp
  then show ?thesis
    using Inr lv lw by (simp add: predict_in_batches_def Let_def split: sum.splits)
qed

lemma evaluate_effect:
  assumes ev: "evaluate c cfg d epoch w = Inr (w', l')"
  shows "params w' = params w \<and> opt_state w' = opt_state w \<and> training w' = False \<and>
     grad_enabled w' = grad_enabled w \<and> dirs w' = dirs w \<and> files w' = files w \<and>
     written w' = written w \<and>
     trace w' = trace w @ [Evaluated epoch] \<and>
     (\<exists>a b c d. console w' = console w @ [MetricsLine epoch a b c d]) \<and>
     fwd_log w' = fwd_log w @ evaluation_calls cfg d \<and>
     (\<exists>trp tep. l' = \<lparr>train_preds = Some trp, test_preds = Some tep\<rparr> \<and>
        snd (predict_in_batches (model_fwd c) w' (train_images d) (train_batch_size cfg)) = Inr trp \<and>
        snd (predict_in_batches (model_fwd c) w' (test_images d) (test_batch_size cfg)) = Inr tep)"
proof -
  obtain w1 r1 where p1:
    "predict_in_batches (model_fwd c) w (train_images d) (train_batch_size cfg) = (w1, r1)"
    by (cases "predict_in_batches (model_fwd c) w (train_images d) (train_batch_size cfg)")
  from ev p1 obtain trp where r1: "r1 = Inr trp"
    by (auto simp: evaluate_def split: sum.splits)
  obtain w2 r2 where p2:
    "predict_in_batches (model_fwd c) w1 (test_images d) (test_batch_size cfg) = (w2, r2)"
    by (cases "predict_in_batches (model_fwd c) w1 (test_images d) (test_batch_size cfg)")
  from ev p1 r1 p2 obtain tep where r2: "r2 = Inr tep"
    by (auto simp: evaluate_def split: sum.splits)
  from ev p1 r1 p2 r2 obtain a b c' d' where
    w': "w' = w2\<lparr>trace := trace w2 @ [Evaluated epoch],
                 console := console w2 @ [MetricsLine epoch a b c' d']\<rparr>" and
    l': "l' = \<lparr>train_preds = Some trp, test_preds = Some tep\<rparr>"
    by (auto simp: evaluate_def split: sum.splits)
  note f1 = predict_in_batches_frame[OF p1]
  note f2 = predict_in_batches_frame[OF p2]
  note s1 = predict_in_batches_success[OF p1[unfolded r1]]
  note s2 = predict_in_batches_success[OF p2[unfolded r2]]
  have t1: "snd (predict_in_batches (model_fwd c) w' (train_images d) (train_batch_size cfg)) = Inr trp"
    using predict_in_batches_params_only[of w' w "model_fwd c" "train_images d" "train_batch_size cfg"]
      p1 r1 f1 f2 by (simp add: w')
  have t2: "snd (predict_in_batches (model_fwd c) w' (test_images d) (test_batch_size cfg)) = Inr tep"
    using predict_in_batches_params_only[of w' w1 "model_fwd c" "test_images d" "test_batch_size cfg"]
      p2 r2 f1 f2 by (simp add: w')
  show ?thesis
    using f1 f2 s1 s2 t1 t2 l' by (simp add: w' evaluation_calls_def)
qed


lemma metrics_epochs_append:
  "metrics_epochs (xs @ ys) = metrics_epochs xs @ metrics_epochs ys"
  by (induction xs rule: metrics_epochs.induct) simp_all

lemma epoch_loop_effect:
  "epoch_loop c cfg d es (w, l) = Inr (w', l') \<Longrightarrow>
     grad_enabled w' = grad_enabled w \<and> dirs w' = dirs w \<and> files w' = files w \<and>
     written w' = written w \<and>
     trace w' = trace w @
       concat (map (\<lambda>e. Trained e # (if should_evaluate e (num_epochs cfg) then [Evaluated e] else [])) es) \<and>
     (\<exists>lines. console w' = console w @ lines \<and>
        length lines = length (filter (\<lambda>e. should_evaluate e (num_epochs cfg)) es) \<and>
        metrics_epochs lines = filter (\<lambda>e. should_evaluate e (num_epochs cfg)) es) \<and>
     fwd_log w' = fwd_log w @
       concat (map (\<lambda>e. evaluation_calls cfg d) (filter (\<lambda>e. should_evaluate e (num_epochs cfg)) es))"
proof (induction es arbitrary: w l)
  case Nil
  then show ?case by simp
next
  case (Cons e es)
  from Cons.prems obtain w1 where
    tb: "train_batches c (w\<lparr>training := True\<rparr>) (train_loader d e) = Inr w1"
    by (auto split: sum.splits)
  let ?w2 = "w1\<lparr>trace := trace w1 @ [Trained e]\<rparr>"
  note f1 = train_batches_frame[OF tb]
  show ?case
  proof (cases "should_evaluate e (num_epochs cfg)")
    case False
    with Cons.prems tb have "epoch_loop c cfg d es (?w2, l) = Inr (w', l')"
      by (simp add: Let_def)
    from Cons.IH[OF this] f1 False show ?thesis by simp
  next
    case True
    with Cons.prems tb obtain w3 l3 where
      ev: "evaluate c cfg d e ?w2 = Inr (w3, l3)" and
      rest: "epoch_loop c cfg d es (w3, l3) = Inr (w', l')"
      by (auto simp: Let_def split: sum.splits)
    note f2 = evaluate_effect[OF ev]
    from f2 obtain a b c' d' where cl: "console w3 = console ?w2 @ [MetricsLine e a b c' d']"
      by blast
    from Cons.IH[OF rest] obtain lines where
      ls: "console w' = console w3 @ lines"
          "length lines = length (filter (\<lambda>e. should_evaluate e (num_epochs cfg)) es)"
          "metrics_epochs lines = filter (\<lambda>e. should_evaluate e (num_epochs cfg)) es"
      by blast
    have "console w' = console w @ (MetricsLine e a b c' d' # lines)"
      using ls cl f1 by simp
    moreover have "length (MetricsLine e a b c' d' # lines)
        = length (filter (\<lambda>e. should_evaluate e (num_epochs cfg)) (e # es))"
      using ls True by simp
    moreover have "metrics_epochs (MetricsLine e a b c' d' # lines)
        = filter (\<lambda>e. should_evaluate e (num_epochs cfg)) (e # es)"
      using ls True by simp
    ultimately have "\<exists>lines. console w' = console w @ lines \<and>
        length lines = length (filter (\<lambda>e. should_evaluate e (num_epochs cfg)) (e # es)) \<and>
        metrics_epochs lines = filter (\<lambda>e. should_evaluate e (num_epochs cfg)) (e # es)"
      by blast
    with Cons.IH[OF rest] f1 f2 True show ?thesis by simp
  qed
qed

lemma epoch_loop_unbound:
  "epoch_loop c cfg d es (w, l) = Inr (w', l') \<Longrightarrow>
     \<forall>e \<in> set es. \<not> should_evaluate e (num_epochs cfg) \<Longrightarrow> l' = l"
proof (induction es arbitrary: w l)
  case Nil
  then show ?case by simp
next
  case (Cons e es)
  from Cons.prems obtain w1 where
    tb: "train_batches c (w\<lparr>training := True\<rparr>) (train_loader d e) = Inr w1"
    by (auto split: sum.splits)
  with Cons.prems have
    "epoch_loop c cfg d es (w1\<lparr>trace := trace w1 @ [Trained e]\<rparr>, l) = Inr (w', l')"
    by (simp add: Let_def)
  from Cons.IH[OF this] Cons.prems show ?case by simp
qed

lemma epoch_loop_fresh:
  "epoch_loop c cfg d es (w, l) = Inr (w', l') \<Longrightarrow> es \<noteq> [] \<Longrightarrow>
   should_evaluate (last es) (num_epochs cfg) \<Longrightarrow>
     training w' = False \<and>
     (\<exists>trp tep. l' = \<lparr>train_preds = Some trp, test_preds = Some tep\<rparr> \<and>
        snd (predict_in_batches (model_fwd c) w' (train_images d) (train_batch_size cfg)) = Inr trp \<and>
        snd (predict_in_batches (model_fwd c) w' (test_images d) (test_batch_size cfg)) = Inr tep)"
proof (induction es arbitrary: w l)
  case Nil
  then show ?case by simp
next
  case (Cons e es)
  from Cons.prems obtain w1 where
    tb: "train_batches c (w\<lparr>training := True\<rparr>) (train_loader d e) = Inr w1"
    by (auto split: sum.splits)
  let ?w2 = "w1\<lparr>trace := trace w1 @ [Trained e]\<rparr>"
  show ?case
  proof (cases "es = []")
    case True
    with Cons.prems have se: "should_evaluate e (num_epochs cfg)" by simp
    with Cons.prems tb True have "evaluate c cfg d e ?w2 = Inr (w', l')"
      by (auto simp: Let_def split: sum.splits)
    from evaluate_effect[OF this] show ?thesis by simp
  next
    case False
    with Cons.prems have la: "should_evaluate (last es) (num_epochs cfg)" by simp
    from Cons.prems tb obtain w3 l3 where "epoch_loop c cfg d es (w3, l3) = Inr (w', l')"
      by (auto simp: Let_def split: sum.splits if_splits)
    from Cons.IH[OF this False la] show ?thesis .
  qed
qed

lemma zip_denormalize:
  "map (\<lambda>(a, b). [a, b]) (zip (map (denormalize m s) xs) (map (denormalize m s) ys))
     = map (\<lambda>(t, p). [t * s + m, p * s + m]) (zip xs ys)"
  by (simp add: zip_map_map denormalize_def split_def)

lemma excel_path_last: "last (excel_path cfg) = CHR ''x''"
  by (simp add: excel_path_def)

lemma checkpoint_path_cases:
  "checkpoint_path cfg =
     (if model_dir cfg = [] \<or> last (model_dir cfg) = CHR ''/''
      then model_dir cfg @ ''model'' @ target_col cfg @ ''.pth''
      else model_dir cfg @ ''/model'' @ target_col cfg @ ''.pth'')"
  by (simp add: checkpoint_path_def os_path_join_def)

lemma checkpoint_path_last: "last (checkpoint_path cfg) = CHR ''h''"
  by (simp add: checkpoint_path_cases)

lemma paths_differ: "excel_path cfg \<noteq> checkpoint_path cfg"
proof
  assume "excel_path cfg = checkpoint_path cfg"
  then have "last (excel_path cfg) = last (checkpoint_path cfg)" by simp
  then show False by (simp add: excel_path_last checkpoint_path_last)
qed


lemma train_success:
  assumes run: "train c cfg d w0 = Inr fin"
  shows "\<exists>w trp tep.
     epoch_loop c cfg d [0..num_epochs cfg - 1]
        (w0\<lparr>console := console w0 @ [DeviceLine]\<rparr>, \<lparr>train_preds = None, test_preds = None\<rparr>)
       = Inr (w, \<lparr>train_preds = Some trp, test_preds = Some tep\<rparr>) \<and>
     length trp = length (train_labels d) \<and> length tep = length (test_labels d) \<and>
     model_dir cfg \<noteq> [] \<and> model_dir cfg \<notin> dom (files w) \<and> model_dir cfg \<noteq> excel_path cfg \<and>
     fin = w\<lparr>files := (files w)
              (excel_path cfg \<mapsto> Workbook
                 [report_sheet ''Train'' (mean_val d) (std_val d) (train_labels d) trp,
                  report_sheet ''Test'' (mean_val d) (std_val d) (test_labels d) tep],
               checkpoint_path cfg \<mapsto> Checkpoint (params w) (mean_val d) (std_val d)),
            written := written w @ [excel_path cfg, checkpoint_path cfg],
            dirs := insert (model_dir cfg) (dirs w),
            console := console w @ [SavedLine (checkpoint_path cfg)]\<rparr>"
proof -
  have rg: "py_range 0 (num_epochs cfg) 1 = Inr [0..num_epochs cfg - 1]"
    by (simp add: py_range_def range_up_upto)
  from run rg obtain w l where
    lp: "epoch_loop c cfg d [0..num_epochs cfg - 1]
        (w0\<lparr>console := console w0 @ [DeviceLine]\<rparr>, \<lparr>train_preds = None, test_preds = None\<rparr>)
       = Inr (w, l)"
    by (auto simp: train_def Let_def split: sum.splits)
  from run rg lp obtain trp tep where
    l: "train_preds l = Some trp" "test_preds l = Some tep"
    by (auto simp: train_def Let_def split: sum.splits option.splits)
  then have l': "l = \<lparr>train_preds = Some trp, test_preds = Some tep\<rparr>" by simp
  from run rg lp l have len:
    "length trp = length (train_labels d)" "length tep = length (test_labels d)"
    by (auto simp: train_def Let_def data_frame_def split: sum.splits if_splits)
  from run rg lp l len have md:
    "model_dir cfg \<noteq> []" "model_dir cfg \<notin> dom (files w)" "model_dir cfg \<noteq> excel_path cfg"
    by (auto simp: train_def Let_def data_frame_def write_file_def os_makedirs_def
        excel_path_def split: sum.splits if_splits)
  from run rg lp l len have
    "fin = w\<lparr>files := (files w)
              (excel_path cfg \<mapsto> Workbook
                 [report_sheet ''Train'' (mean_val d) (std_val d) (train_labels d) trp,
                  report_sheet ''Test'' (mean_val d) (std_val d) (test_labels d) tep],
               checkpoint_path cfg \<mapsto> Checkpoint (params w) (mean_val d) (std_val d)),
            written := written w @ [excel_path cfg, checkpoint_path cfg],
            dirs := insert (model_dir cfg) (dirs w),
            console := console w @ [SavedLine (checkpoint_path cfg)]\<rparr>"
    by (auto simp: train_def Let_def data_frame_def to_excel_def write_file_def os_makedirs_def
        report_sheet_def excel_path_def checkpoint_path_def zip_denormalize insert_absorb
        split: sum.splits if_splits)
  with lp l' len md show ?thesis by blast
qed

text \<open>What a completed run of \<^verbatim>\<open>train\<close> has done, in one statement.\<close>

lemma train_completed:
  assumes run: "train c cfg d w0 = Inr fin"
  shows "\<exists>trp tep lines.
     1 \<le> num_epochs cfg \<and>
     snd (predict_in_batches (model_fwd c) fin (train_images d) (train_batch_size cfg)) = Inr trp \<and>
     snd (predict_in_batches (model_fwd c) fin (test_images d) (test_batch_size cfg)) = Inr tep \<and>
     length trp = length (train_labels d) \<and> length tep = length (test_labels d) \<and>
     model_dir cfg \<noteq> [] \<and> model_dir cfg \<notin> dom (files w0) \<and> model_dir cfg \<noteq> excel_path cfg \<and>
     training fin = False \<and> grad_enabled fin = grad_enabled w0 \<and>
     trace fin = trace w0 @
       concat (map (\<lambda>e. Trained e # (if should_evaluate e (num_epochs cfg) then [Evaluated e] else []))
         [0..num_epochs cfg - 1]) \<and>
     console fin = console w0 @ [DeviceLine] @ lines @ [SavedLine (checkpoint_path cfg)] \<and>
     length lines = length (filter (\<lambda>e. should_evaluate e (num_epochs cfg)) [0..num_epochs cfg - 1]) \<and>
     metrics_epochs lines = filter (\<lambda>e. should_evaluate e (num_epochs cfg)) [0..num_epochs cfg - 1] \<and>
     fwd_log fin = fwd_log w0 @
       concat (map (\<lambda>e. evaluation_calls cfg d)
         (filter (\<lambda>e. should_evaluate e (num_epochs cfg)) [0..num_epochs cfg - 1])) \<and>
     dirs fin = insert (model_dir cfg) (dirs w0) \<and>
     written fin = written w0 @ [excel_path cfg, checkpoint_path cfg] \<and>
     files fin = (files w0)
        (excel_path cfg \<mapsto> Workbook
           [report_sheet ''Train'' (mean_val d) (std_val d) (train_labels d) trp,
            report_sheet ''Test'' (mean_val d) (std_val d) (test_labels d) tep],
         checkpoint_path cfg \<mapsto> Checkpoint (params fin) (mean_val d) (std_val d))"
proof -
  let ?wp = "w0\<lparr>console := console w0 @ [DeviceLine]\<rparr>"
  let ?l0 = "\<lparr>train_preds = None, test_preds = None\<rparr>"
  from train_success[OF run] obtain w trp tep where
    lp: "epoch_loop c cfg d [0..num_epochs cfg - 1] (?wp, ?l0)
           = Inr (w, \<lparr>train_preds = Some trp, test_preds = Some tep\<rparr>)" and
    len: "length trp = length (train_labels d)" "length tep = length (test_labels d)" and
    md: "model_dir cfg \<noteq> []" "model_dir cfg \<notin> dom (files w)" "model_dir cfg \<noteq> excel_path cfg" and
    fin: "fin = w\<lparr>files := (files w)
              (excel_path cfg \<mapsto> Workbook
                 [report_sheet ''Train'' (mean_val d) (std_val d) (train_labels d) trp,
                  report_sheet ''Test'' (mean_val d) (std_val d) (test_labels d) tep],
               checkpoint_path cfg \<mapsto> Checkpoint (params w) (mean_val d) (std_val d)),
            written := written w @ [excel_path cfg, checkpoint_path cfg],
            dirs := insert (model_dir cfg) (dirs w),
            console := console w @ [SavedLine (checkpoint_path cfg)]\<rparr>"
    by blast
  have n1: "1 \<le> num_epochs cfg"
  proof (rule ccontr)
    assume "\<not> 1 \<le> num_epochs cfg"
    then have "[0..num_epochs cfg - 1] = []" by simp
    with lp show False by simp
  qed
  then have ne: "[0..num_epochs cfg - 1] \<noteq> []" by simp
  have "[0..num_epochs cfg - 1] = [0..num_epochs cfg - 1 - 1] @ [num_epochs cfg - 1]"
    using n1 by (intro upto_rec2) simp
  then have "last [0..num_epochs cfg - 1] = num_epochs cfg - 1"
    by (metis last_snoc)
  then have la: "should_evaluate (last [0..num_epochs cfg - 1]) (num_epochs cfg)"
    by (simp add: should_evaluate_def)
  from epoch_loop_fresh[OF lp ne la] have
    tr: "training w = False" and
    p1: "snd (predict_in_batches (model_fwd c) w (train_images d) (train_batch_size cfg)) = Inr trp" and
    p2: "snd (predict_in_batches (model_fwd c) w (test_images d) (test_batch_size cfg)) = Inr tep"
    by auto
  have pf: "params fin = params w" by (simp add: fin)
  note q1 = predict_in_batches_params_only[OF pf, of "model_fwd c" "train_images d" "train_batch_size cfg"]
  note q2 = predict_in_batches_params_only[OF pf, of "model_fwd c" "test_images d" "test_batch_size cfg"]
  from epoch_loop_effect[OF lp] obtain lines where
    ef: "grad_enabled w = grad_enabled w0" "dirs w = dirs w0" "files w = files w0"
        "written w = written w0"
        "trace w = trace w0 @
           concat (map (\<lambda>e. Trained e # (if should_evaluate e (num_epochs cfg) then [Evaluated e] else []))
             [0..num_epochs cfg - 1])"
        "console w = (console w0 @ [DeviceLine]) @ lines"
        "length lines = length (filter (\<lambda>e. should_evaluate e (num_epochs cfg)) [0..num_epochs cfg - 1])"
        "metrics_epochs lines = filter (\<lambda>e. should_evaluate e (num_epochs cfg)) [0..num_epochs cfg - 1]"
        "fwd_log w = fwd_log w0 @
           concat (map (\<lambda>e. evaluation_calls cfg d)
             (filter (\<lambda>e. should_evaluate e (num_epochs cfg)) [0..num_epochs cfg - 1]))"
    by auto
  show ?thesis
    apply (rule exI[of _ trp], rule exI[of _ tep], rule exI[of _ lines])
    using n1 p1 p2 q1 q2 len md tr ef by (simp add: fin)
qed

text \<open>
  The loop and the spec's functions of the parameters agree: the mini-batch loop is the
  list of optimizer steps, an evaluation prints the spec's line for the parameters it
  finds, and the lines of a completed loop are those of the epochs that evaluate.
\<close>

lemma batched_predictions_world:
  "batched_predictions fwd (params w) images B = snd (predict_in_batches fwd w images B)"
  unfolding batched_predictions_def
  by (rule predict_in_batches_params_only) (simp add: fresh_world_def)

lemma train_batches_updates:
  "train_batches c w bs = Inr w' \<Longrightarrow>
     optimizer_updates c (params w, opt_state w) bs = Inr (params w', opt_state w')"
proof (induction bs arbitrary: w)
  case Nil
  then show ?case by simp
next
  case (Cons b bs)
  obtain x y where b: "b = (x, y)" by (cases b)
  from Cons.prems obtain p s where
    st: "opt_step c (params w) (opt_state w) x y = Inr (p, s)" and
    rest: "train_batches c (w\<lparr>params := p, opt_state := s\<rparr>) bs = Inr w'"
    by (auto simp: b split: sum.splits)
  from Cons.IH[OF rest] st show ?case by (simp add: b)
qed

lemma evaluate_line:
  assumes ev: "evaluate c cfg d epoch w = Inr (w', l')"
  shows "\<exists>line. console w' = console w @ [line] \<and>
           metrics_of c cfg d (params w) epoch = Some line"
proof -
  obtain w1 r1 where p1:
    "predict_in_batches (model_fwd c) w (train_images d) (train_batch_size cfg) = (w1, r1)"
    by (cases "predict_in_batches (model_fwd c) w (train_images d) (train_batch_size cfg)")
  from ev p1 obtain trp where r1: "r1 = Inr trp"
    by (auto simp: evaluate_def split: sum.splits)
  obtain w2 r2 where p2:
    "predict_in_batches (model_fwd c) w1 (test_images d) (test_batch_size cfg) = (w2, r2)"
    by (cases "predict_in_batches (model_fwd c) w1 (test_images d) (test_batch_size cfg)")
  from ev p1 r1 p2 obtain tep where r2: "r2 = Inr tep"
    by (auto simp: evaluate_def split: sum.splits)
  from ev p1 r1 p2 r2 obtain m1 m2 q1 q2 where
    ms: "mean_squared_error c (train_labels d) trp = Inr m1"
        "mean_squared_error c (test_labels d) tep = Inr m2"
        "r2_score c (train_labels d) trp = Inr q1"
        "r2_score c (test_labels d) tep = Inr q2" and
    w': "w' = w2\<lparr>trace := trace w2 @ [Evaluated epoch],
                 console := console w2 @
                   [MetricsLine epoch (np_sqrt c m1) (np_sqrt c m2) q1 q2]\<rparr>"
    by (auto simp: evaluate_def split: sum.splits)
  note f1 = predict_in_batches_frame[OF p1]
  note f2 = predict_in_batches_frame[OF p2]
  have b1: "batched_predictions (model_fwd c) (params w) (train_images d) (train_batch_size cfg)
              = Inr trp"
    using p1 r1 by (simp add: batched_predictions_world)
  have "batched_predictions (model_fwd c) (params w1) (test_images d) (test_batch_size cfg)
          = Inr tep"
    using p2 r2 by (simp add: batched_predictions_world)
  then have b2: "batched_predictions (model_fwd c) (params w) (test_images d) (test_batch_size cfg)
              = Inr tep"
    using f1 by simp
  have "metrics_of c cfg d (params w) epoch
          = Some (MetricsLine epoch (np_sqrt c m1) (np_sqrt c m2) q1 q2)"
    by (simp add: metrics_of_def b1 b2 ms)
  moreover have "console w' = console w @ [MetricsLine epoch (np_sqrt c m1) (np_sqrt c m2) q1 q2]"
    using f1 f2 by (simp add: w')
  ultimately show ?thesis by blast
qed

lemma epoch_loop_params:
  "epoch_loop c cfg d es (w, l) = Inr (w', l') \<Longrightarrow>
     params_after c d (params w, opt_state w) es = Inr (params w', opt_state w')"
proof (induction es arbitrary: w l)
  case Nil
  then show ?case by simp
next
  case (Cons e es)
  from Cons.prems obtain w1 where
    tb: "train_batches c (w\<lparr>training := True\<rparr>) (train_loader d e) = Inr w1"
    by (auto split: sum.splits)
  let ?w2 = "w1\<lparr>trace := trace w1 @ [Trained e]\<rparr>"
  have up: "optimizer_updates c (params w, opt_state w) (train_loader d e)
              = Inr (params w1, opt_state w1)"
    using train_batches_updates[OF tb] by simp
  show ?case
  proof (cases "should_evaluate e (num_epochs cfg)")
    case False
    with Cons.prems tb have "epoch_loop c cfg d es (?w2, l) = Inr (w', l')"
      by (simp add: Let_def)
    from Cons.IH[OF this] up show ?thesis by simp
  next
    case True
    with Cons.prems tb obtain w3 l3 where
      ev: "evaluate c cfg d e ?w2 = Inr (w3, l3)" and
      rest: "epoch_loop c cfg d es (w3, l3) = Inr (w', l')"
      by (auto simp: Let_def split: sum.splits)
    from evaluate_effect[OF ev] have "params w3 = params w1" "opt_state w3 = opt_state w1"
      by simp_all
    with Cons.IH[OF rest] up show ?thesis by simp
  qed
qed

lemma epoch_loop_lines:
  "epoch_loop c cfg d [i..j] (w, l) = Inr (w', l') \<Longrightarrow>
     \<exists>lines. console w' = console w @ lines \<and>
       map Some lines =
         map (\<lambda>e. case params_after c d (params w, opt_state w) [i..e] of
                     Inl x \<Rightarrow> None
                   | Inr (p, s) \<Rightarrow> metrics_of c cfg d p e)
           (filter (\<lambda>e. should_evaluate e (num_epochs cfg)) [i..j])"
proof (induction i j arbitrary: w l rule: upto.induct)
  case (1 i j)
  let ?P = "\<lambda>e. should_evaluate e (num_epochs cfg)"
  let ?F = "\<lambda>ps k e. case params_after c d ps [k..e] of
                     Inl x \<Rightarrow> None
                   | Inr (p, s) \<Rightarrow> metrics_of c cfg d p e"
  show ?case
  proof (cases "i \<le> j")
    case False
    then have "[i..j] = []" by simp
    with "1.prems" show ?thesis by simp
  next
    case True
    have up: "[i..j] = i # [i + 1..j]" using True by (simp add: upto_rec1)
    from "1.prems" obtain w1 where
      tb: "train_batches c (w\<lparr>training := True\<rparr>) (train_loader d i) = Inr w1"
      by (auto simp: up split: sum.splits)
    let ?w2 = "w1\<lparr>trace := trace w1 @ [Trained i]\<rparr>"
    note f1 = train_batches_frame[OF tb]
    have ou: "optimizer_updates c (params w, opt_state w) (train_loader d i)
                = Inr (params w1, opt_state w1)"
      using train_batches_updates[OF tb] by simp
    have shift: "?F (params w, opt_state w) i e = ?F (params w1, opt_state w1) (i + 1) e"
      if "e \<in> set [i + 1..j]" for e
    proof -
      from that have "i \<le> e" by simp
      then have "[i..e] = i # [i + 1..e]" by (simp add: upto_rec1)
      then show ?thesis by (simp add: ou)
    qed
    have mc: "map (?F (params w, opt_state w) i) (filter ?P [i + 1..j])
                = map (?F (params w1, opt_state w1) (i + 1)) (filter ?P [i + 1..j])"
      by (rule map_cong) (auto simp: shift)
    show ?thesis
    proof (cases "?P i")
      case False
      with "1.prems" tb have rest: "epoch_loop c cfg d [i + 1..j] (?w2, l) = Inr (w', l')"
        by (simp add: up Let_def)
      from "1.IH"[OF True rest] obtain lines where
        "console w' = console ?w2 @ lines"
        "map Some lines = map (?F (params ?w2, opt_state ?w2) (i + 1)) (filter ?P [i + 1..j])"
        by blast
      with f1 False mc show ?thesis by (simp add: up)
    next
      case ev: True
      with "1.prems" tb obtain w3 l3 where
        e3: "evaluate c cfg d i ?w2 = Inr (w3, l3)" and
        rest: "epoch_loop c cfg d [i + 1..j] (w3, l3) = Inr (w', l')"
        by (auto simp: up Let_def split: sum.splits)
      from evaluate_line[OF e3] obtain line where
        ln: "console w3 = console ?w2 @ [line]"
            "metrics_of c cfg d (params ?w2) i = Some line"
        by blast
      from evaluate_effect[OF e3] have ps: "params w3 = params w1" "opt_state w3 = opt_state w1"
        by simp_all
      from "1.IH"[OF True rest] obtain lines where
        ls: "console w' = console w3 @ lines"
            "map Some lines = map (?F (params w3, opt_state w3) (i + 1)) (filter ?P [i + 1..j])"
        by blast
      have hd: "?F (params w, opt_state w) i i = Some line"
        using ln ou by simp
      have "console w' = console w @ (line # lines)"
        using ls ln f1 by simp
      moreover have "map Some (line # lines)
          = map (?F (params w, opt_state w) i) (filter ?P [i..j])"
        using ls ps hd ev mc by (simp add: up)
      ultimately show ?thesis by blast
    qed
  qed
qed

lemma train_lines:
  assumes run: "train c cfg d w0 = Inr fin"
  shows "\<exists>lines.
     console fin = console w0 @ [DeviceLine] @ lines @ [SavedLine (checkpoint_path cfg)] \<and>
     map Some lines = map (metrics_line_at c cfg d (params w0, opt_state w0))
                        (evaluation_epochs (num_epochs cfg)) \<and>
     params_after c d (params w0, opt_state w0) [0..num_epochs cfg - 1]
        = Inr (params fin, opt_state fin)"
proof -
  let ?wp = "w0\<lparr>console := console w0 @ [DeviceLine]\<rparr>"
  from train_success[OF run] obtain w trp tep where
    lp: "epoch_loop c cfg d [0..num_epochs cfg - 1] (?wp, \<lparr>train_preds = None, test_preds = None\<rparr>)
           = Inr (w, \<lparr>train_preds = Some trp, test_preds = Some tep\<rparr>)" and
    fin: "fin = w\<lparr>files := (files w)
              (excel_path cfg \<mapsto> Workbook
                 [report_sheet ''Train'' (mean_val d) (std_val d) (train_labels d) trp,
                  report_sheet ''Test'' (mean_val d) (std_val d) (test_labels d) tep],
               checkpoint_path cfg \<mapsto> Checkpoint (params w) (mean_val d) (std_val d)),
            written := written w @ [excel_path cfg, checkpoint_path cfg],
            dirs := insert (model_dir cfg) (dirs w),
            console := console w @ [SavedLine (checkpoint_path cfg)]\<rparr>"
    by blast
  from epoch_loop_lines[OF lp] obtain lines where
    c1: "console w = console ?wp @ lines" and
    c2: "map Some lines =
           map (\<lambda>e. case params_after c d (params ?wp, opt_state ?wp) [0..e] of
                       Inl x \<Rightarrow> None
                     | Inr (p, s) \<Rightarrow> metrics_of c cfg d p e)
             (filter (\<lambda>e. should_evaluate e (num_epochs cfg)) [0..num_epochs cfg - 1])"
    by blast
  have "map Some lines = map (metrics_line_at c cfg d (params w0, opt_state w0))
                        (evaluation_epochs (num_epochs cfg))"
    using c2 by (simp add: metrics_line_at_def evaluation_epochs_def should_evaluate_def)
  moreover have "console fin = console w0 @ [DeviceLine] @ lines @ [SavedLine (checkpoint_path cfg)]"
    using c1 by (simp add: fin)
  moreover have "params_after c d (params w0, opt_state w0) [0..num_epochs cfg - 1]
        = Inr (params fin, opt_state fin)"
    using epoch_loop_params[OF lp] by (simp add: fin)
  ultimately show ?thesis by blast
qed

lemma demo_roots:
  "sqrt 4225 = 65" "sqrt 225 = 15" "sqrt 25 = 5" "sqrt 28561 = 169" "sqrt 1521 = 39"
  "sqrt 169 = 13"
  by (rule real_sqrt_unique; simp)+

lemma demo_run: "train demo_collab (demo_config 7) demo_data demo_world = Inr demo_final"
  by (simp add: train_def py_range_def range_up.simps should_evaluate_def evaluate_def
      predict_in_batches_def py_slice_def clip_index_def np_vstack_def data_frame_def
      to_excel_def write_file_def os_makedirs_def os_path_join_def denormalize_def
      demo_collab_def demo_config_def demo_data_def demo_world_def demo_final_def
      demo_mse_def demo_r2_def squared_errors_def demo_roots
      fresh_world_def scale_fwd_def logged_def Let_def)

lemma concat_lengths:
  "map f cs = map Inr outs \<Longrightarrow> \<forall>c out. f c = Inr out \<longrightarrow> length out = length c \<Longrightarrow>
     length (concat outs) = length (concat cs)"
proof (induction cs arbitrary: outs)
  case Nil
  then show ?case by simp
next
  case (Cons c cs)
  from Cons.prems(1) obtain out outs' where
    "outs = out # outs'" "f c = Inr out" "map f cs = map Inr outs'"
    by (cases outs) auto
  with Cons.IH[of outs'] Cons.prems(2) show ?case by simp
qed

lemma predictions_length:
  assumes "snd (predict_in_batches fwd w images B) = Inr r"
    and "\<forall>xs out. fwd (params w) False xs = Inr out \<longrightarrow> length out = length xs"
  shows "length r = length images"
proof -
  obtain w' where "predict_in_batches fwd w images B = (w', Inr r)"
    using assms(1) by (cases "predict_in_batches fwd w images B") simp
  from predict_in_batches_success[OF this] obtain outs where
    "0 < B" "r = concat outs"
    "map (fwd (params w) False) (chunks (nat B) images) = map Inr outs"
    by blast
  with concat_lengths[of "fwd (params w) False" "chunks (nat B) images" outs] assms(2)
  show ?thesis by (simp add: concat_chunks)
qed

lemma schedule_eq:
  "concat (map (\<lambda>e. Trained e # (if should_evaluate e n then [Evaluated e] else [])) [0..n - 1])
     = schedule n"
  by (simp add: schedule_def should_evaluate_def)

lemma evaluation_epochs_eq:
  "filter (\<lambda>e. should_evaluate e n) [0..n - 1] = evaluation_epochs n"
  by (simp add: evaluation_epochs_def should_evaluate_def)

lemma upto_last: "1 \<le> n \<Longrightarrow> [0..n - 1] = [0..n - 2] @ [n - 1]"
  using upto_rec2[of 0 "n - 1"] by simp

lemma schedule_last:
  "1 \<le> n \<Longrightarrow> \<exists>pre. schedule n = pre @ [Trained (n - 1), Evaluated (n - 1)]"
  by (simp add: schedule_def upto_last)

lemma evaluation_epochs_last:
  "1 \<le> n \<Longrightarrow> \<exists>pre. evaluation_epochs n = pre @ [n - 1]"
  by (simp add: evaluation_epochs_def upto_last)

text \<open>
  C3. In a completed run of \<^verbatim>\<open>train\<close> the phases are exactly the spec's schedule: every
  epoch trains, and the evaluation step follows the training phase of epoch \<open>e\<close> exactly
  when \<open>e mod 5 = 0\<close> or \<open>e\<close> is the last epoch. The console holds, between the device line
  and the checkpoint line, exactly one metrics line per evaluation, in order, and the line
  of epoch \<open>e\<close> carries the epoch and the train RMSE, test RMSE, train R2 and test R2 of the
  batched predictions over the whole splits, made with the parameters that the training of
  epochs 0 to \<open>e\<close> has produced. The forward passes of the run are those of the evaluation
  steps: the chunks of the whole train split and then of the whole test split, each time.
\<close>

theorem evaluation_schedule:
  assumes run: "train c cfg d w0 = Inr fin"
  shows "trace fin = trace w0 @ schedule (num_epochs cfg)
     \<and> (\<exists>lines.
           console fin = console w0 @ [DeviceLine] @ lines @ [SavedLine (checkpoint_path cfg)]
         \<and> map Some lines = map (metrics_line_at c cfg d (params w0, opt_state w0))
                              (evaluation_epochs (num_epochs cfg)))
     \<and> metrics_epochs (console fin)
          = metrics_epochs (console w0) @ evaluation_epochs (num_epochs cfg)
     \<and> calls_since w0 fin
          = concat (map (\<lambda>e. evaluation_calls cfg d) (evaluation_epochs (num_epochs cfg)))"
proof -
  from train_completed[OF run] obtain lines where
    "trace fin = trace w0 @ schedule (num_epochs cfg)"
    "console fin = console w0 @ [DeviceLine] @ lines @ [SavedLine (checkpoint_path cfg)]"
    "metrics_epochs lines = evaluation_epochs (num_epochs cfg)"
    "fwd_log fin = fwd_log w0 @
       concat (map (\<lambda>e. evaluation_calls cfg d) (evaluation_epochs (num_epochs cfg)))"
    unfolding schedule_eq evaluation_epochs_eq by blast
  then have "trace fin = trace w0 @ schedule (num_epochs cfg)
     \<and> metrics_epochs (console fin)
          = metrics_epochs (console w0) @ evaluation_epochs (num_epochs cfg)
     \<and> calls_since w0 fin
          = concat (map (\<lambda>e. evaluation_calls cfg d) (evaluation_epochs (num_epochs cfg)))"
    by (simp add: metrics_epochs_append calls_since_def)
  moreover from train_lines[OF run] have "\<exists>lines.
           console fin = console w0 @ [DeviceLine] @ lines @ [SavedLine (checkpoint_path cfg)]
         \<and> map Some lines = map (metrics_line_at c cfg d (params w0, opt_state w0))
                              (evaluation_epochs (num_epochs cfg))"
    by blast
  ultimately show ?thesis by blast
qed

lemma demo_lines:
  "metrics_line_at demo_collab (demo_config 7) demo_data (1, 0) 0
     = Some (MetricsLine 0 65 169 (- (23689 / 14336)) (- (22161 / 6400)))"
  "metrics_line_at demo_collab (demo_config 7) demo_data (1, 0) 5
     = Some (MetricsLine 5 15 39 (12311 / 14336) (4879 / 6400))"
  "metrics_line_at demo_collab (demo_config 7) demo_data (1, 0) 6
     = Some (MetricsLine 6 5 13 (14111 / 14336) (6231 / 6400))"
  by (simp_all add: metrics_line_at_def metrics_of_def batched_predictions_def upto.simps
      predict_in_batches_def py_range_def range_up.simps py_slice_def clip_index_def
      np_vstack_def demo_collab_def demo_config_def demo_data_def demo_mse_def demo_r2_def
      squared_errors_def demo_roots fresh_world_def scale_fwd_def Let_def)

theorem evaluation_schedule_witness:
  "train demo_collab (demo_config 7) demo_data demo_world = Inr demo_final
   \<and> trace demo_final
        = [Trained 0, Evaluated 0, Trained 1, Trained 2, Trained 3, Trained 4,
           Trained 5, Evaluated 5, Trained 6, Evaluated 6]
   \<and> schedule 7
        = [Trained 0, Evaluated 0, Trained 1, Trained 2, Trained 3, Trained 4,
           Trained 5, Evaluated 5, Trained 6, Evaluated 6]
   \<and> evaluation_epochs 7 = [0, 5, 6]
   \<and> metrics_line_at demo_collab (demo_config 7) demo_data (1, 0) 5
        = Some (MetricsLine 5 15 39 (12311 / 14336) (4879 / 6400))
   \<and> console demo_final
        = [DeviceLine,
           MetricsLine 0 65 169 (- (23689 / 14336)) (- (22161 / 6400)),
           MetricsLine 5 15 39 (12311 / 14336) (4879 / 6400),
           MetricsLine 6 5 13 (14111 / 14336) (6231 / 6400),
           SavedLine ''out/model3.pth'']
   \<and> map call_size (calls_since demo_world demo_final) = [2, 1, 2, 2, 1, 2, 2, 1, 2]"
proof -
  have n: "num_epochs (demo_config 7) = 7" by (simp add: demo_config_def)
  have sch: "schedule 7
      = [Trained 0, Evaluated 0, Trained 1, Trained 2, Trained 3, Trained 4,
         Trained 5, Evaluated 5, Trained 6, Evaluated 6]"
    by (simp add: schedule_def upto.simps)
  have eps: "evaluation_epochs 7 = [0, 5, 6]"
    by (simp add: evaluation_epochs_def upto.simps)
  have w0: "trace demo_world = []" "console demo_world = []"
    "params demo_world = 1" "opt_state demo_world = 0"
    by (simp_all add: demo_world_def fresh_world_def)
  have cp: "checkpoint_path (demo_config 7) = ''out/model3.pth''"
    by (simp add: checkpoint_path_def os_path_join_def demo_config_def)
  have ec: "map call_size (evaluation_calls (demo_config 7) demo_data) = [2, 1, 2]"
    by (simp add: evaluation_calls_def demo_config_def demo_data_def chunks.simps logged_def)
  note th = evaluation_schedule[OF demo_run, unfolded n]
  from th have t1: "trace demo_final = schedule 7" by (simp add: w0)
  from th obtain lines where
    co: "console demo_final = console demo_world @ [DeviceLine] @ lines
           @ [SavedLine (checkpoint_path (demo_config 7))]" and
    ls: "map Some lines = map (metrics_line_at demo_collab (demo_config 7) demo_data
           (params demo_world, opt_state demo_world)) (evaluation_epochs 7)"
    by blast
  from ls have "map Some lines
      = [Some (MetricsLine 0 65 169 (- (23689 / 14336)) (- (22161 / 6400))),
         Some (MetricsLine 5 15 39 (12311 / 14336) (4879 / 6400)),
         Some (MetricsLine 6 5 13 (14111 / 14336) (6231 / 6400))]"
    by (simp add: eps w0 demo_lines)
  then have "lines
      = [MetricsLine 0 65 169 (- (23689 / 14336)) (- (22161 / 6400)),
         MetricsLine 5 15 39 (12311 / 14336) (4879 / 6400),
         MetricsLine 6 5 13 (14111 / 14336) (6231 / 6400)]"
    by (auto simp: map_eq_Cons_conv)
  with co have t2: "console demo_final
        = [DeviceLine,
           MetricsLine 0 65 169 (- (23689 / 14336)) (- (22161 / 6400)),
           MetricsLine 5 15 39 (12311 / 14336) (4879 / 6400),
           MetricsLine 6 5 13 (14111 / 14336) (6231 / 6400),
           SavedLine ''out/model3.pth'']"
    by (simp add: w0 cp)
  from th have t3: "map call_size (calls_since demo_world demo_final)
      = [2, 1, 2, 2, 1, 2, 2, 1, 2]"
    by (simp add: eps ec)
  show ?thesis using demo_run sch eps t1 t2 t3 demo_lines(2) by simp
qed

text \<open>
  C4. If no epoch of the configured range satisfies the evaluation condition, which happens
  exactly for an epoch count below 1, the loop leaves \<^verbatim>\<open>train_preds\<close> and \<^verbatim>\<open>test_preds\<close>
  unbound and \<^verbatim>\<open>train\<close> fails with \<open>UnboundLocalError\<close> at the denormalization on line 92.
\<close>

theorem unbound_without_evaluation:
  assumes never: "\<forall>e. 0 \<le> e \<and> e < num_epochs cfg \<longrightarrow> \<not> should_evaluate e (num_epochs cfg)"
  shows "num_epochs cfg < 1
     \<and> epoch_loop c cfg d [0..num_epochs cfg - 1]
          (w, \<lparr>train_preds = None, test_preds = None\<rparr>)
          = Inr (w, \<lparr>train_preds = None, test_preds = None\<rparr>)
     \<and> train c cfg d w0 = Inl UnboundLocalError"
proof -
  have n: "num_epochs cfg < 1"
  proof (rule ccontr)
    assume "\<not> num_epochs cfg < 1"
    with never have "\<not> should_evaluate 0 (num_epochs cfg)" by simp
    then show False by (simp add: should_evaluate_def)
  qed
  then have em: "[0..num_epochs cfg - 1] = []" by simp
  have rg: "py_range 0 (num_epochs cfg) 1 = Inr [0..num_epochs cfg - 1]"
    by (simp add: py_range_def range_up_upto)
  show ?thesis
    using n by (simp add: train_def rg em)
qed

theorem unbound_without_evaluation_witness:
  "num_epochs (demo_config 0) < 1
   \<and> train demo_collab (demo_config 0) demo_data demo_world = Inl UnboundLocalError"
proof -
  have "\<forall>e. 0 \<le> e \<and> e < num_epochs (demo_config 0)
          \<longrightarrow> \<not> should_evaluate e (num_epochs (demo_config 0))"
    by (auto simp: demo_config_def)
  from unbound_without_evaluation[OF this, of demo_collab demo_data demo_world demo_world]
  show ?thesis by simp
qed






text \<open>
  C7. After a completed run the file \<^verbatim>\<open>predictions_vs_actual_col{target}.xlsx\<close> is a workbook of
  exactly two sheets, "Train" and "Test", each with the columns "True" and "Predicted" and
  no other column, with one row per label of its split; the predictions are those of the
  final model on the whole split. If the model returns one output per input, the number of
  rows is also the number of images of the split. It is the only report written: the run's
  other write is the checkpoint, at a different path.
\<close>

theorem report_saved:
  assumes run: "train c cfg d w0 = Inr fin"
  shows "\<exists>trp tep.
       snd (predict_in_batches (model_fwd c) fin (train_images d) (train_batch_size cfg)) = Inr trp
     \<and> snd (predict_in_batches (model_fwd c) fin (test_images d) (test_batch_size cfg)) = Inr tep
     \<and> files fin (''predictions_vs_actual_col'' @ target_col cfg @ ''.xlsx'')
         = Some (Workbook
             [report_sheet ''Train'' (mean_val d) (std_val d) (train_labels d) trp,
              report_sheet ''Test'' (mean_val d) (std_val d) (test_labels d) tep])
     \<and> length (rows (report_sheet ''Train'' (mean_val d) (std_val d) (train_labels d) trp))
         = length (train_labels d)
     \<and> length (rows (report_sheet ''Test'' (mean_val d) (std_val d) (test_labels d) tep))
         = length (test_labels d)
     \<and> ((\<forall>xs out. model_fwd c (params fin) False xs = Inr out \<longrightarrow> length out = length xs)
          \<longrightarrow> length (train_labels d) = length (train_images d)
            \<and> length (test_labels d) = length (test_images d))
     \<and> written fin = written w0 @
         [''predictions_vs_actual_col'' @ target_col cfg @ ''.xlsx'', checkpoint_path cfg]
     \<and> ''predictions_vs_actual_col'' @ target_col cfg @ ''.xlsx'' \<noteq> checkpoint_path cfg"
proof -
  from train_completed[OF run] obtain trp tep where
    p1: "snd (predict_in_batches (model_fwd c) fin (train_images d) (train_batch_size cfg)) = Inr trp" and
    p2: "snd (predict_in_batches (model_fwd c) fin (test_images d) (test_batch_size cfg)) = Inr tep" and
    len: "length trp = length (train_labels d)" "length tep = length (test_labels d)" and
    wr: "written fin = written w0 @ [excel_path cfg, checkpoint_path cfg]" and
    fs: "files fin = (files w0)
        (excel_path cfg \<mapsto> Workbook
           [report_sheet ''Train'' (mean_val d) (std_val d) (train_labels d) trp,
            report_sheet ''Test'' (mean_val d) (std_val d) (test_labels d) tep],
         checkpoint_path cfg \<mapsto> Checkpoint (params fin) (mean_val d) (std_val d))"
    by blast
  have im: "(\<forall>xs out. model_fwd c (params fin) False xs = Inr out \<longrightarrow> length out = length xs)
          \<longrightarrow> length (train_labels d) = length (train_images d)
            \<and> length (test_labels d) = length (test_images d)"
    using predictions_length[OF p1] predictions_length[OF p2] len by auto
  show ?thesis
    apply (rule exI[of _ trp], rule exI[of _ tep])
    using p1 p2 len wr im paths_differ[of cfg]
    by (simp add: fs report_sheet_def excel_path_def)
qed

theorem report_saved_witness:
  "train demo_collab (demo_config 7) demo_data demo_world = Inr demo_final
   \<and> files demo_final ''predictions_vs_actual_col3.xlsx'' = Some (Workbook
        [\<lparr>sheet_name = ''Train'', header = [''True'', ''Predicted''],
          rows = [[42, 40], [170, 160], [234, 220]]\<rparr>,
         \<lparr>sheet_name = ''Test'', header = [''True'', ''Predicted''],
          rows = [[234, 220], [554, 520]]\<rparr>])
   \<and> length (train_images demo_data) = 3 \<and> length (test_images demo_data) = 2
   \<and> snd (predict_in_batches scale_fwd demo_final [1, 5, 7] 2) = Inr [15, 75, 105]
   \<and> snd (predict_in_batches scale_fwd demo_final [7, 17] 2) = Inr [105, 255]"
proof -
  from report_saved[OF demo_run] obtain trp tep where
    p1: "snd (predict_in_batches (model_fwd demo_collab) demo_final (train_images demo_data)
           (train_batch_size (demo_config 7))) = Inr trp" and
    p2: "snd (predict_in_batches (model_fwd demo_collab) demo_final (test_images demo_data)
           (test_batch_size (demo_config 7))) = Inr tep" and
    fl: "files demo_final (''predictions_vs_actual_col'' @ target_col (demo_config 7) @ ''.xlsx'')
         = Some (Workbook
             [report_sheet ''Train'' (mean_val demo_data) (std_val demo_data)
                (train_labels demo_data) trp,
              report_sheet ''Test'' (mean_val demo_data) (std_val demo_data)
                (test_labels demo_data) tep])"
    by blast
  have e1: "snd (predict_in_batches scale_fwd demo_final [1, 5, 7] 2) = Inr [15, 75, 105]"
    by (simp add: predict_in_batches_def py_range_def range_up.simps py_slice_def
        clip_index_def np_vstack_def scale_fwd_def demo_final_def Let_def)
  have e2: "snd (predict_in_batches scale_fwd demo_final [7, 17] 2) = Inr [105, 255]"
    by (simp add: predict_in_batches_def py_range_def range_up.simps py_slice_def
        clip_index_def np_vstack_def scale_fwd_def demo_final_def Let_def)
  from p1 e1 have trp: "trp = [15, 75, 105]"
    by (simp add: demo_collab_def demo_data_def demo_config_def)
  from p2 e2 have tep: "tep = [105, 255]"
    by (simp add: demo_collab_def demo_data_def demo_config_def)
  from fl have "files demo_final ''predictions_vs_actual_col3.xlsx'' = Some (Workbook
        [\<lparr>sheet_name = ''Train'', header = [''True'', ''Predicted''],
          rows = [[42, 40], [170, 160], [234, 220]]\<rparr>,
         \<lparr>sheet_name = ''Test'', header = [''True'', ''Predicted''],
          rows = [[234, 220], [554, 520]]\<rparr>])"
    unfolding trp tep by (simp add: report_sheet_def demo_data_def demo_config_def)
  then show ?thesis using demo_run e1 e2 by (simp add: demo_data_def)
qed

text \<open>
  C10. For an epoch count of at least 1 the evaluation condition holds at the last epoch.
  So in a completed run the last two phases are the training phase and the evaluation
  step of the last epoch, and the final parameters, the ones the checkpoint holds, are the
  result of all optimizer steps of all epochs. The predictions in the report are those of
  the final parameters on the whole splits, and the last metrics line, printed right
  before the checkpoint line, is that of the last epoch and carries the RMSE and R2 values
  of these very predictions.
\<close>

theorem final_epoch_evaluated:
  assumes n1: "1 \<le> num_epochs cfg"
  shows "should_evaluate (num_epochs cfg - 1) (num_epochs cfg)
     \<and> (train c cfg d w0 = Inr fin \<longrightarrow>
          (\<exists>pre. trace fin = pre @ [Trained (num_epochs cfg - 1), Evaluated (num_epochs cfg - 1)])
        \<and> (\<exists>pre. metrics_epochs (console fin) = pre @ [num_epochs cfg - 1])
        \<and> params_after c d (params w0, opt_state w0) [0..num_epochs cfg - 1]
             = Inr (params fin, opt_state fin)
        \<and> (\<exists>trp tep train_mse test_mse train_r2 test_r2 pre.
              snd (predict_in_batches (model_fwd c) fin (train_images d) (train_batch_size cfg))
                = Inr trp
            \<and> snd (predict_in_batches (model_fwd c) fin (test_images d) (test_batch_size cfg))
                = Inr tep
            \<and> mean_squared_error c (train_labels d) trp = Inr train_mse
            \<and> mean_squared_error c (test_labels d) tep = Inr test_mse
            \<and> r2_score c (train_labels d) trp = Inr train_r2
            \<and> r2_score c (test_labels d) tep = Inr test_r2
            \<and> console fin = pre @
                 [MetricsLine (num_epochs cfg - 1) (np_sqrt c train_mse) (np_sqrt c test_mse)
                    train_r2 test_r2,
                  SavedLine (checkpoint_path cfg)]
            \<and> files fin (excel_path cfg) = Some (Workbook
                [report_sheet ''Train'' (mean_val d) (std_val d) (train_labels d) trp,
                 report_sheet ''Test'' (mean_val d) (std_val d) (test_labels d) tep])
            \<and> files fin (checkpoint_path cfg)
                = Some (Checkpoint (params fin) (mean_val d) (std_val d))))"
proof (intro conjI impI)
  show "should_evaluate (num_epochs cfg - 1) (num_epochs cfg)"
    by (simp add: should_evaluate_def)
next
  assume run: "train c cfg d w0 = Inr fin"
  from train_completed[OF run] obtain trp tep lines0 where
    p1: "snd (predict_in_batches (model_fwd c) fin (train_images d) (train_batch_size cfg)) = Inr trp" and
    p2: "snd (predict_in_batches (model_fwd c) fin (test_images d) (test_batch_size cfg)) = Inr tep" and
    tr: "trace fin = trace w0 @ schedule (num_epochs cfg)" and
    co: "console fin = console w0 @ [DeviceLine] @ lines0 @ [SavedLine (checkpoint_path cfg)]" and
    me: "metrics_epochs lines0 = evaluation_epochs (num_epochs cfg)" and
    fs: "files fin = (files w0)
        (excel_path cfg \<mapsto> Workbook
           [report_sheet ''Train'' (mean_val d) (std_val d) (train_labels d) trp,
            report_sheet ''Test'' (mean_val d) (std_val d) (test_labels d) tep],
         checkpoint_path cfg \<mapsto> Checkpoint (params fin) (mean_val d) (std_val d))"
    unfolding schedule_eq evaluation_epochs_eq by blast
  from schedule_last[OF n1] obtain pre where "schedule (num_epochs cfg)
      = pre @ [Trained (num_epochs cfg - 1), Evaluated (num_epochs cfg - 1)]"
    by blast
  with tr have "trace fin = (trace w0 @ pre) @ [Trained (num_epochs cfg - 1), Evaluated (num_epochs cfg - 1)]"
    by simp
  then show "\<exists>pre. trace fin = pre @ [Trained (num_epochs cfg - 1), Evaluated (num_epochs cfg - 1)]"
    by blast
  from evaluation_epochs_last[OF n1] obtain pre' where
    el: "evaluation_epochs (num_epochs cfg) = pre' @ [num_epochs cfg - 1]"
    by blast
  with co me have "metrics_epochs (console fin)
      = (metrics_epochs (console w0) @ pre') @ [num_epochs cfg - 1]"
    by (simp add: metrics_epochs_append)
  then show "\<exists>pre. metrics_epochs (console fin) = pre @ [num_epochs cfg - 1]"
    by blast
  from train_lines[OF run] obtain lines where
    cl: "console fin = console w0 @ [DeviceLine] @ lines @ [SavedLine (checkpoint_path cfg)]" and
    ml: "map Some lines = map (metrics_line_at c cfg d (params w0, opt_state w0))
                            (evaluation_epochs (num_epochs cfg))" and
    pa: "params_after c d (params w0, opt_state w0) [0..num_epochs cfg - 1]
           = Inr (params fin, opt_state fin)"
    by blast
  show "params_after c d (params w0, opt_state w0) [0..num_epochs cfg - 1]
             = Inr (params fin, opt_state fin)"
    by (rule pa)
  from ml el obtain us vs where
    uv: "lines = us @ vs"
        "map Some vs = [metrics_line_at c cfg d (params w0, opt_state w0) (num_epochs cfg - 1)]"
    by (auto simp: map_eq_append_conv)
  then obtain line where
    vs: "vs = [line]" and
    li: "metrics_line_at c cfg d (params w0, opt_state w0) (num_epochs cfg - 1) = Some line"
    by (auto simp: map_eq_Cons_conv)
  from li pa have "metrics_of c cfg d (params fin) (num_epochs cfg - 1) = Some line"
    by (simp add: metrics_line_at_def)
  then obtain train_mse test_mse train_r2 test_r2 where
    ms: "mean_squared_error c (train_labels d) trp = Inr train_mse"
        "mean_squared_error c (test_labels d) tep = Inr test_mse"
        "r2_score c (train_labels d) trp = Inr train_r2"
        "r2_score c (test_labels d) tep = Inr test_r2" and
    ln: "line = MetricsLine (num_epochs cfg - 1) (np_sqrt c train_mse) (np_sqrt c test_mse)
                  train_r2 test_r2"
    using p1 p2
    by (auto simp: metrics_of_def batched_predictions_world split: sum.splits)
  have "console fin = (console w0 @ [DeviceLine] @ us) @
                 [MetricsLine (num_epochs cfg - 1) (np_sqrt c train_mse) (np_sqrt c test_mse)
                    train_r2 test_r2,
                  SavedLine (checkpoint_path cfg)]"
    using cl uv vs ln by simp
  then show "\<exists>trp tep train_mse test_mse train_r2 test_r2 pre.
              snd (predict_in_batches (model_fwd c) fin (train_images d) (train_batch_size cfg))
                = Inr trp
            \<and> snd (predict_in_batches (model_fwd c) fin (test_images d) (test_batch_size cfg))
                = Inr tep
            \<and> mean_squared_error c (train_labels d) trp = Inr train_mse
            \<and> mean_squared_error c (test_labels d) tep = Inr test_mse
            \<and> r2_score c (train_labels d) trp = Inr train_r2
            \<and> r2_score c (test_labels d) tep = Inr test_r2
            \<and> console fin = pre @
                 [MetricsLine (num_epochs cfg - 1) (np_sqrt c train_mse) (np_sqrt c test_mse)
                    train_r2 test_r2,
                  SavedLine (checkpoint_path cfg)]
            \<and> files fin (excel_path cfg) = Some (Workbook
                [report_sheet ''Train'' (mean_val d) (std_val d) (train_labels d) trp,
                 report_sheet ''Test'' (mean_val d) (std_val d) (test_labels d) tep])
            \<and> files fin (checkpoint_path cfg)
                = Some (Checkpoint (params fin) (mean_val d) (std_val d))"
    using p1 p2 ms paths_differ[of cfg]
    by (intro exI[of _ trp] exI[of _ tep] exI[of _ train_mse] exI[of _ test_mse]
        exI[of _ train_r2] exI[of _ test_r2] exI[of _ "console w0 @ [DeviceLine] @ us"])
       (simp add: fs)
qed

theorem final_epoch_evaluated_witness:
  "1 \<le> num_epochs (demo_config 7)
   \<and> should_evaluate 6 7
   \<and> train demo_collab (demo_config 7) demo_data demo_world = Inr demo_final
   \<and> last (trace demo_final) = Evaluated 6
   \<and> last (butlast (trace demo_final)) = Trained 6
   \<and> params_after demo_collab demo_data (1, 0) [0, 1, 2, 3, 4, 5, 6] = Inr (15, 14)
   \<and> params demo_final = 15
   \<and> snd (predict_in_batches scale_fwd demo_final [1, 5, 7] 2) = Inr [15, 75, 105]
   \<and> snd (predict_in_batches scale_fwd demo_final [7, 17] 2) = Inr [105, 255]
   \<and> demo_mse [16, 80, 112] [15, 75, 105] = Inr 25
   \<and> demo_mse [112, 272] [105, 255] = Inr 169
   \<and> last (butlast (console demo_final))
        = MetricsLine 6 5 13 (14111 / 14336) (6231 / 6400)"
proof -
  have n: "num_epochs (demo_config 7) = 7" by (simp add: demo_config_def)
  have n1: "1 \<le> num_epochs (demo_config 7)" by (simp add: n)
  have w0: "params demo_world = 1" "opt_state demo_world = 0"
    by (simp_all add: demo_world_def fresh_world_def)
  have pf: "params demo_final = 15" "opt_state demo_final = 14"
    by (simp_all add: demo_final_def)
  have up: "[0..6] = [0, 1, 2, 3, 4, 5, 6 :: int]" by (simp add: upto.simps)
  have e1: "snd (predict_in_batches scale_fwd demo_final [1, 5, 7] 2) = Inr [15, 75, 105]"
    by (simp add: predict_in_batches_def py_range_def range_up.simps py_slice_def
        clip_index_def np_vstack_def scale_fwd_def demo_final_def Let_def)
  have e2: "snd (predict_in_batches scale_fwd demo_final [7, 17] 2) = Inr [105, 255]"
    by (simp add: predict_in_batches_def py_range_def range_up.simps py_slice_def
        clip_index_def np_vstack_def scale_fwd_def demo_final_def Let_def)
  have m1: "demo_mse [16, 80, 112] [15, 75, 105] = Inr 25"
    "demo_mse [112, 272] [105, 255] = Inr 169"
    by (simp_all add: demo_mse_def squared_errors_def)
  have cl: "last (butlast (console demo_final))
        = MetricsLine 6 5 13 (14111 / 14336) (6231 / 6400)"
    by (simp add: demo_final_def)
  note th = final_epoch_evaluated[OF n1, of demo_collab demo_data demo_world demo_final,
      unfolded n w0 pf]
  from th have se: "should_evaluate 6 7" by simp
  from th demo_run obtain pre where
    "trace demo_final = pre @ [Trained 6, Evaluated 6]"
    by auto
  then have tl: "last (trace demo_final) = Evaluated 6"
    "last (butlast (trace demo_final)) = Trained 6"
    by (simp_all add: butlast_append)
  from th demo_run have "params_after demo_collab demo_data (1, 0) [0..6] = Inr (15, 14)"
    by simp
  then have pa: "params_after demo_collab demo_data (1, 0) [0, 1, 2, 3, 4, 5, 6] = Inr (15, 14)"
    by (simp only: up)
  show ?thesis using n1 se demo_run tl pa pf(1) e1 e2 m1 cl by simp
qed

end
